theory Spec2Isabelle
  imports Complex_Main "HOL-Library.Sublist" "HOL-Library.Multiset"
begin

section \<open>The approval-driven learning-weight engine\<close>

text \<open>
  A shallow embedding of the four request handlers that read and write the tables
  \<^verbatim>\<open>decisions\<close>, \<^verbatim>\<open>approvals\<close> and \<^verbatim>\<open>learning_weights\<close>:
  \<^verbatim>\<open>createDecisionHandler\<close>, \<^verbatim>\<open>getDecisionHandler\<close>, \<^verbatim>\<open>listDecisionsHandler\<close>
  (handlers/decisions) and \<^verbatim>\<open>createApprovalHandler\<close> (handlers/approvals), together
  with the SQL statements they send.

  Conventions of the model:
  \<^item> a JavaScript string is a HOL \<open>string\<close>, one \<open>char\<close> per code unit (code units above
    255 are outside the model);
  \<^item> a JavaScript number and a \<^verbatim>\<open>DOUBLE PRECISION\<close> column are a \<open>real\<close>: the formulas are
    the source's, the rounding of IEEE doubles is not modelled;
  \<^item> a \<^verbatim>\<open>TIMESTAMPTZ\<close> value is the instant it denotes, an \<open>int\<close>;
  \<^item> a table is the list of its rows;
  \<^item> an awaited call that throws is the result \<open>None\<close>, and the database keeps the
    state it had when the call threw (no handler opens a transaction).
\<close>

subsection \<open>Strings\<close>

definition toUpperCase :: "char \<Rightarrow> char" where
  \<comment> \<open>On the ASCII letters, which is where the regular expression's flag \<^verbatim>\<open>i\<close> and
      \<^verbatim>\<open>match[1].toUpperCase()\<close> are used.\<close>
  "toUpperCase c =
     (case map_of (zip ''abcdefghijklmnopqrstuvwxyz'' ''ABCDEFGHIJKLMNOPQRSTUVWXYZ'') c of
        Some u \<Rightarrow> u
      | None \<Rightarrow> c)"

definition toLowerCase :: "char \<Rightarrow> char" where
  "toLowerCase c =
     (case map_of (zip ''ABCDEFGHIJKLMNOPQRSTUVWXYZ'' ''abcdefghijklmnopqrstuvwxyz'') c of
        Some l \<Rightarrow> l
      | None \<Rightarrow> c)"

definition is_space :: "char \<Rightarrow> bool" where
  \<comment> \<open>The white space that \<^verbatim>\<open>trim\<close> and \<^verbatim>\<open>parseInt\<close> skip: space, TAB, LF, VT, FF, CR, NBSP.\<close>
  "is_space c \<longleftrightarrow> c \<in> set [CHR '' '', CHR 0x09, CHR 0x0A, CHR 0x0B, CHR 0x0C, CHR 0x0D, CHR 0xA0]"

definition trim :: "string \<Rightarrow> string" where
  "trim s = rev (dropWhile is_space (rev (dropWhile is_space s)))"

definition digit_value :: "char \<Rightarrow> int option" where
  "digit_value c = map_of (zip ''0123456789'' [0, 1, 2, 3, 4, 5, 6, 7, 8, 9]) c"

definition parseInt :: "string \<Rightarrow> int option" where
  \<comment> \<open>\<^verbatim>\<open>parseInt(s, 10)\<close>; \<open>None\<close> is \<^verbatim>\<open>NaN\<close>.\<close>
  "parseInt s =
     (let t = dropWhile is_space s;
          negative = (case t of c # _ \<Rightarrow> c = CHR ''-'' | [] \<Rightarrow> False);
          u = (case t of c # r \<Rightarrow> if c = CHR ''-'' \<or> c = CHR ''+'' then r else t | [] \<Rightarrow> []);
          ds = takeWhile (\<lambda>c. digit_value c \<noteq> None) u;
          n = foldl (\<lambda>a c. 10 * a + (case digit_value c of Some d \<Rightarrow> d | None \<Rightarrow> 0)) 0 ds
      in if ds = [] then None else Some (if negative then - n else n))"

subsection \<open>Recommendation types\<close>

definition recommendation_words :: "string list" where
  "recommendation_words = [''PROCEED'', ''DEFER'', ''REJECT'', ''REVIEW'', ''HALT'']"

definition regex_match :: "string \<Rightarrow> string option" where
  \<comment> \<open>Group 1 of \<^verbatim>\<open>recommendation.match(/^(PROCEED|DEFER|REJECT|REVIEW|HALT)/i)\<close>: the
      first alternative that the text starts with, compared without regard to case.\<close>
  "regex_match recommendation =
     (case find (\<lambda>w. prefix w (map toUpperCase recommendation)) recommendation_words of
        None \<Rightarrow> None
      | Some w \<Rightarrow> Some (take (length w) recommendation))"

definition extractRecommendationType :: "string \<Rightarrow> string" where
  "extractRecommendationType recommendation =
     (case regex_match recommendation of
        Some m \<Rightarrow> map toUpperCase m
      | None \<Rightarrow> ''UNKNOWN'')"

text \<open>
  The specification's reading, for comparison: the leading token of the text (its longest
  initial run of letters) is looked up in the fixed set without regard to case.
\<close>

definition is_letter :: "char \<Rightarrow> bool" where
  "is_letter c \<longleftrightarrow> c \<in> set ''abcdefghijklmnopqrstuvwxyzABCDEFGHIJKLMNOPQRSTUVWXYZ''"

definition leading_token :: "string \<Rightarrow> string" where
  "leading_token recommendation = takeWhile is_letter recommendation"

definition spec_recommendation_type :: "string \<Rightarrow> string" where
  "spec_recommendation_type recommendation =
     (if map toUpperCase (leading_token recommendation) \<in> set recommendation_words
      then map toUpperCase (leading_token recommendation)
      else ''UNKNOWN'')"

subsection \<open>Rows and tables\<close>

type_synonym timestamp = int

record signals =
  financial :: string
  risk :: string
  complexity :: string

record graph_relations =
  objective_to_repos :: "string list"
  repos_to_signals :: "(string \<times> string list) list"
  signals_to_recommendation :: "string list"

record decision_row =
  d_id :: string
  d_objective :: string
  d_command :: string
  d_raw_output_hash :: string
  d_recommendation :: string
  d_confidence :: string
  d_signals :: signals
  d_embedding_text :: string
  d_embedding :: "real list option"
  d_graph_relations :: graph_relations
  d_created_at :: timestamp

record approval_row =
  a_id :: string
  a_decision_id :: string
  a_approved :: bool
  a_confidence_adjustment :: "real option"
  a_reward :: real
  a_timestamp :: timestamp
  a_created_at :: timestamp

datatype source_type = Decision | Signal | Objective

record learning_weight =
  lw_id :: string
  source_type :: source_type
  source_id :: string
  target_type :: string
  target_value :: string
  weight :: real
  update_count :: int
  lw_created_at :: timestamp
  lw_updated_at :: timestamp

record db =
  decisions :: "decision_row list"
  approvals :: "approval_row list"
  learning_weights :: "learning_weight list"

type_synonym edge_key = "source_type \<times> string \<times> string \<times> string"

definition lw_key :: "learning_weight \<Rightarrow> edge_key" where
  \<comment> \<open>\<^verbatim>\<open>UNIQUE(source_type, source_id, target_type, target_value)\<close>\<close>
  "lw_key w = (source_type w, source_id w, target_type w, target_value w)"

definition lw_lookup :: "learning_weight list \<Rightarrow> edge_key \<Rightarrow> learning_weight option" where
  "lw_lookup t k = find (\<lambda>w. lw_key w = k) t"

definition pg_uuid :: "string \<Rightarrow> string" where
  \<comment> \<open>A \<^verbatim>\<open>UUID\<close> column holds the identifier itself; its text form (\<^verbatim>\<open>d.id::text\<close>) is the
      lower-case one.\<close>
  "pg_uuid s = map toLowerCase s"

subsection \<open>The environment of a request\<close>

record env =
  is_uuid :: "string \<Rightarrow> bool"
    \<comment> \<open>\<^verbatim>\<open>z.string().uuid()\<close>\<close>
  uuidv4 :: "nat \<Rightarrow> string"
    \<comment> \<open>the identifier generated for the row of the request's query number \<open>k\<close>\<close>
  now_iso :: "nat \<Rightarrow> string"
    \<comment> \<open>\<^verbatim>\<open>new Date().toISOString()\<close>, by call site\<close>
  timestamptz :: "string \<Rightarrow> timestamp"
    \<comment> \<open>the instant the store reads from a timestamp string\<close>
  ilike :: "string \<Rightarrow> string \<Rightarrow> bool"
    \<comment> \<open>the store's \<^verbatim>\<open>text ILIKE pattern\<close>\<close>
  throws :: "nat \<Rightarrow> bool"
    \<comment> \<open>whether the request's \<^verbatim>\<open>dbClient.query\<close> number \<open>k\<close> throws\<close>

type_synonym 'a io = "db \<Rightarrow> 'a option \<times> db"

definition return :: "'a \<Rightarrow> 'a io" where
  "return a s = (Some a, s)"

definition await :: "'a io \<Rightarrow> ('a \<Rightarrow> 'b io) \<Rightarrow> 'b io" where
  "await m f s = (case m s of (None, s') \<Rightarrow> (None, s') | (Some a, s') \<Rightarrow> f a s')"

definition query :: "env \<Rightarrow> nat \<Rightarrow> (db \<Rightarrow> 'a \<times> db) \<Rightarrow> 'a io" where
  \<comment> \<open>\<^verbatim>\<open>DatabaseClient.query\<close>: the statement runs, or the call throws and nothing is written.\<close>
  "query e k statement s =
     (if throws e k then (None, s) else (case statement s of (rows, s') \<Rightarrow> (Some rows, s')))"

subsection \<open>The SQL statements\<close>

definition select_decision :: "string \<Rightarrow> db \<Rightarrow> decision_row list \<times> db" where
  \<comment> \<open>\<^verbatim>\<open>SELECT ... FROM decisions WHERE id = $1\<close>\<close>
  "select_decision decision_id s = (filter (\<lambda>d. d_id d = pg_uuid decision_id) (decisions s), s)"

definition insert_approval :: "approval_row \<Rightarrow> db \<Rightarrow> unit \<times> db" where
  \<comment> \<open>\<^verbatim>\<open>INSERT INTO approvals (...) VALUES (...)\<close>\<close>
  "insert_approval row s = ((), s\<lparr>approvals := approvals s @ [row]\<rparr>)"

definition lw_upsert ::
  "string \<Rightarrow> source_type \<Rightarrow> string \<Rightarrow> string \<Rightarrow> real \<Rightarrow> timestamp \<Rightarrow> real \<Rightarrow>
   learning_weight list \<Rightarrow> learning_weight list" where
  \<comment> \<open>\<^verbatim>\<open>INSERT INTO learning_weights (...) VALUES ($1, $2, $3, 'recommendation', $4, $5, 1, $6, $6)
      ON CONFLICT (source_type, source_id, target_type, target_value) DO UPDATE SET
        weight = learning_weights.weight + $7 * ($5 - learning_weights.weight),
        update_count = learning_weights.update_count + 1, updated_at = $6\<close>\<close>
  "lw_upsert p1 p2 p3 p4 p5 p6 p7 t =
     (case lw_lookup t (p2, p3, ''recommendation'', p4) of
        None \<Rightarrow>
          t @ [\<lparr>lw_id = p1, source_type = p2, source_id = p3, target_type = ''recommendation'',
                 target_value = p4, weight = p5, update_count = 1,
                 lw_created_at = p6, lw_updated_at = p6\<rparr>]
      | Some _ \<Rightarrow>
          map (\<lambda>w. if lw_key w = (p2, p3, ''recommendation'', p4)
                    then w\<lparr>weight := weight w + p7 * (p5 - weight w),
                           update_count := update_count w + 1,
                           lw_updated_at := p6\<rparr>
                    else w) t)"

definition upsert_learning_weight ::
  "string \<Rightarrow> source_type \<Rightarrow> string \<Rightarrow> string \<Rightarrow> real \<Rightarrow> timestamp \<Rightarrow> real \<Rightarrow> db \<Rightarrow> unit \<times> db" where
  "upsert_learning_weight p1 p2 p3 p4 p5 p6 p7 s =
     ((), s\<lparr>learning_weights := lw_upsert p1 p2 p3 p4 p5 p6 p7 (learning_weights s)\<rparr>)"

definition upsert_decision :: "decision_row \<Rightarrow> db \<Rightarrow> unit \<times> db" where
  \<comment> \<open>\<^verbatim>\<open>INSERT INTO decisions (...) VALUES (...) ON CONFLICT (id) DO UPDATE SET
        objective = EXCLUDED.objective, command = EXCLUDED.command,
        raw_output_hash = EXCLUDED.raw_output_hash, recommendation = EXCLUDED.recommendation,
        confidence = EXCLUDED.confidence, signals = EXCLUDED.signals,
        embedding_text = EXCLUDED.embedding_text, graph_relations = EXCLUDED.graph_relations\<close>\<close>
  "upsert_decision row s =
     ((), s\<lparr>decisions :=
        (case find (\<lambda>d. d_id d = d_id row) (decisions s) of
           None \<Rightarrow> decisions s @ [row]
         | Some _ \<Rightarrow>
             map (\<lambda>d. if d_id d = d_id row
                       then d\<lparr>d_objective := d_objective row, d_command := d_command row,
                              d_raw_output_hash := d_raw_output_hash row,
                              d_recommendation := d_recommendation row,
                              d_confidence := d_confidence row, d_signals := d_signals row,
                              d_embedding_text := d_embedding_text row,
                              d_graph_relations := d_graph_relations row\<rparr>
                       else d) (decisions s))\<rparr>)"

definition where_clause :: "env \<Rightarrow> string option \<Rightarrow> decision_row \<Rightarrow> bool" where
  \<comment> \<open>\<^verbatim>\<open>WHERE objective ILIKE $1\<close> with \<^verbatim>\<open>`%${objective.trim()}%`\<close>, when the parameter
      \<^verbatim>\<open>objective\<close> is given and not blank; no condition otherwise.\<close>
  "where_clause e objective d =
     (case objective of
        None \<Rightarrow> True
      | Some objective \<Rightarrow>
          if objective \<noteq> [] \<and> length (trim objective) > 0
          then ilike e (d_objective d) (''%'' @ trim objective @ ''%'')
          else True)"

definition count_decisions :: "env \<Rightarrow> string option \<Rightarrow> db \<Rightarrow> int \<times> db" where
  \<comment> \<open>\<^verbatim>\<open>SELECT COUNT(*) as total FROM decisions ${whereClause}\<close>\<close>
  "count_decisions e objective s = (int (length (filter (where_clause e objective) (decisions s))), s)"

definition left_join :: "decision_row list \<Rightarrow> learning_weight list \<Rightarrow> (decision_row \<times> real) list" where
  \<comment> \<open>\<^verbatim>\<open>FROM decisions d LEFT JOIN learning_weights lw ON lw.source_type = 'decision'
      AND lw.source_id = d.id::text AND lw.target_type = 'recommendation'\<close>, each row with its
      \<^verbatim>\<open>COALESCE(lw.weight, 0) as approval_weight\<close>\<close>
  "left_join ds lws =
     concat (map (\<lambda>d.
       case filter (\<lambda>lw. source_type lw = Decision \<and> source_id lw = d_id d
                          \<and> target_type lw = ''recommendation'') lws of
         [] \<Rightarrow> [(d, 0)]
       | lw # rest \<Rightarrow> map (\<lambda>lw. (d, weight lw)) (lw # rest)) ds)"

definition precedes :: "decision_row \<times> real \<Rightarrow> decision_row \<times> real \<Rightarrow> bool" where
  \<comment> \<open>\<^verbatim>\<open>ORDER BY COALESCE(lw.weight, 0) DESC, d.created_at DESC\<close>\<close>
  "precedes a b \<longleftrightarrow>
     snd a > snd b \<or> (snd a = snd b \<and> d_created_at (fst a) \<ge> d_created_at (fst b))"

fun insert_row :: "decision_row \<times> real \<Rightarrow> (decision_row \<times> real) list \<Rightarrow> (decision_row \<times> real) list" where
  "insert_row x [] = [x]"
| "insert_row x (y # ys) = (if precedes x y then x # y # ys else y # insert_row x ys)"

definition order_by :: "(decision_row \<times> real) list \<Rightarrow> (decision_row \<times> real) list" where
  \<comment> \<open>SQL leaves the order of rows that agree on both sort keys open; the model keeps
      them in the order the join produced them.\<close>
  "order_by rows = foldr insert_row rows []"

definition select_decisions ::
  "env \<Rightarrow> string option \<Rightarrow> int \<Rightarrow> int \<Rightarrow> db \<Rightarrow> (decision_row \<times> real) list \<times> db" where
  \<comment> \<open>the select query, with \<^verbatim>\<open>LIMIT $n OFFSET $m\<close>\<close>
  "select_decisions e objective row_limit row_offset s =
     (take (nat row_limit) (drop (nat row_offset)
        (order_by (left_join (filter (where_clause e objective) (decisions s)) (learning_weights s)))), s)"

subsection \<open>handlers/approvals: the weight update and the reward\<close>

definition LEARNING_RATE :: real where
  "LEARNING_RATE = 0.1"

definition updateLearningWeight ::
  "env \<Rightarrow> nat \<Rightarrow> source_type \<Rightarrow> string \<Rightarrow> string \<Rightarrow> real \<Rightarrow> unit io" where
  \<comment> \<open>\<open>k\<close> is the number of the query this call sends.\<close>
  "updateLearningWeight e k sourceType sourceId targetValue reward =
     (let new_id = uuidv4 e k;
          now = now_iso e k
      in query e k (upsert_learning_weight new_id sourceType sourceId targetValue reward
                      (timestamptz e now) LEARNING_RATE))"

definition adjustedReward :: "bool \<Rightarrow> real option \<Rightarrow> real" where
  \<comment> \<open>\<^verbatim>\<open>const reward = approved ? 1.0 : -1.0;
      const adjustedReward = confidence_adjustment ? reward * (1 + confidence_adjustment) : reward\<close>;
      an adjustment of 0 is falsy.\<close>
  "adjustedReward approved confidence_adjustment =
     (let reward = (if approved then 1.0 else - 1.0)
      in case confidence_adjustment of
           None \<Rightarrow> reward
         | Some a \<Rightarrow> if a \<noteq> 0 then reward * (1 + a) else reward)"

definition entries :: "signals \<Rightarrow> (string \<times> string) list" where
  \<comment> \<open>\<^verbatim>\<open>Object.entries(signals)\<close> of the object read back from the \<^verbatim>\<open>JSONB\<close> column, which
      keeps an object's keys by length and then bytewise.\<close>
  "entries s = [(''risk'', risk s), (''financial'', financial s), (''complexity'', complexity s)]"

fun for_signals ::
  "env \<Rightarrow> nat \<Rightarrow> (string \<times> string) list \<Rightarrow> string \<Rightarrow> real \<Rightarrow> int \<Rightarrow> int io" where
  \<comment> \<open>the loop \<^verbatim>\<open>for (const [signalType, signalValue] of Object.entries(signals))\<close>; it returns
      the counter \<^verbatim>\<open>weightsUpdated\<close>\<close>
  "for_signals e k [] recommendationType reward weightsUpdated = return weightsUpdated"
| "for_signals e k ((signalType, signalValue) # rest) recommendationType reward weightsUpdated =
     (let signalId = signalType @ '':'' @ take 50 signalValue
      in await (updateLearningWeight e k Signal signalId recommendationType reward)
           (\<lambda>_. for_signals e (Suc k) rest recommendationType reward (weightsUpdated + 1)))"

subsection \<open>Requests and responses\<close>

record approval_body =
  decision_id :: string
  approved :: bool
  confidence_adjustment :: "real option"
  timestamp :: "string option"

record decision_body =
  id' :: string
  objective :: string
  command :: string
  raw_output_hash :: string
  recommendation :: string
  confidence :: string
  signals :: signals
  embedding_text :: string
  graph_relations :: graph_relations
  created_at :: "string option"

record list_query =
  q_objective :: "string option"
  q_limit :: "string option"
  q_offset :: "string option"

record CreateApprovalResponse =
  r_id :: string
  r_decision_id :: string
  r_reward :: real
  weights_updated :: int
  learning_applied :: bool

record CreateDecisionResponse =
  cd_id :: string
  cd_created :: bool
  cd_decision :: decision_body

record ListDecisionsResponse =
  data :: "decision_row list"
  total :: int
  limit :: int
  offset :: int

datatype response =
    Decision_201 CreateDecisionResponse
  | Decision_200 decision_row
  | Decisions_200 ListDecisionsResponse
  | Approval_201 CreateApprovalResponse
  | validation_error
  | not_found
  | internal_error

fun status :: "response \<Rightarrow> nat" where
  "status (Decision_201 _) = 201"
| "status (Decision_200 _) = 200"
| "status (Decisions_200 _) = 200"
| "status (Approval_201 _) = 201"
| "status validation_error = 400"
| "status not_found = 404"
| "status internal_error = 500"

datatype request =
    POST_decisions decision_body
  | GET_decision string
  | GET_decisions list_query
  | POST_approval approval_body

subsection \<open>handlers/approvals: the handler\<close>

definition createApprovalSchema :: "env \<Rightarrow> approval_body \<Rightarrow> bool" where
  \<comment> \<open>The body's fields have their types; the schema's remaining checks are the format
      of \<^verbatim>\<open>decision_id\<close> and \<^verbatim>\<open>.min(-1).max(1)\<close> on a given \<^verbatim>\<open>confidence_adjustment\<close>.\<close>
  "createApprovalSchema e body \<longleftrightarrow>
     is_uuid e (decision_id body) \<and>
     (case confidence_adjustment body of None \<Rightarrow> True | Some a \<Rightarrow> - 1 \<le> a \<and> a \<le> 1)"

definition createApprovalHandler :: "env \<Rightarrow> approval_body \<Rightarrow> db \<Rightarrow> response \<times> db" where
  "createApprovalHandler e body s =
     (if \<not> createApprovalSchema e body then (validation_error, s)
      else
        case
          await (query e 0 (select_decision (decision_id body))) (\<lambda>rows.
            case rows of
              [] \<Rightarrow> return not_found
            | decision # _ \<Rightarrow>
                let adjusted = adjustedReward (approved body) (confidence_adjustment body);
                    approvalId = uuidv4 e 1;
                    eventTimestamp =
                      (case timestamp body of
                         None \<Rightarrow> now_iso e 0
                       | Some t \<Rightarrow> if t \<noteq> [] then t else now_iso e 0);
                    now = now_iso e 1
                in
                await (query e 1 (insert_approval
                         \<lparr>a_id = approvalId, a_decision_id = pg_uuid (decision_id body),
                          a_approved = approved body,
                          a_confidence_adjustment =
                            (case confidence_adjustment body of
                               None \<Rightarrow> None
                             | Some a \<Rightarrow> if a \<noteq> 0 then Some a else None),
                          a_reward = adjusted,
                          a_timestamp = timestamptz e eventTimestamp,
                          a_created_at = timestamptz e now\<rparr>)) (\<lambda>_.
                let recommendationType = extractRecommendationType (d_recommendation decision);
                    weightsUpdated = 0
                in
                await (updateLearningWeight e 2 Decision (decision_id body)
                         recommendationType adjusted) (\<lambda>_.
                let weightsUpdated = weightsUpdated + 1
                in
                await (for_signals e 3 (entries (d_signals decision))
                         recommendationType adjusted weightsUpdated) (\<lambda>weightsUpdated.
                let objectiveId = take 200 (d_objective decision)
                in
                await (updateLearningWeight e 6 Objective objectiveId
                         recommendationType adjusted) (\<lambda>_.
                let weightsUpdated = weightsUpdated + 1;
                    trajectoryId = uuidv4 e 7
                in
                await (query e 7 (upsert_learning_weight trajectoryId Decision
                         (''trajectory:'' @ decision_id body) (''pattern:'' @ recommendationType)
                         adjusted (timestamptz e now) LEARNING_RATE)) (\<lambda>_.
                let weightsUpdated = weightsUpdated + 1
                in
                return (Approval_201
                         \<lparr>r_id = approvalId, r_decision_id = decision_id body,
                          r_reward = adjusted, weights_updated = weightsUpdated,
                          learning_applied = True\<rparr>))))))) s
        of
          (None, s') \<Rightarrow> (internal_error, s')
        | (Some response, s') \<Rightarrow> (response, s'))"

subsection \<open>handlers/decisions\<close>

definition createDecisionSchema :: "env \<Rightarrow> decision_body \<Rightarrow> bool" where
  "createDecisionSchema e body \<longleftrightarrow>
     is_uuid e (id' body) \<and> length (objective body) \<ge> 1 \<and> length (command body) \<ge> 1 \<and>
     length (raw_output_hash body) = 64 \<and> length (recommendation body) \<ge> 1 \<and>
     confidence body \<in> set [''HIGH'', ''MEDIUM'', ''LOW''] \<and> length (embedding_text body) \<ge> 1"

definition createDecisionHandler :: "env \<Rightarrow> decision_body \<Rightarrow> db \<Rightarrow> response \<times> db" where
  "createDecisionHandler e body s =
     (if \<not> createDecisionSchema e body then (validation_error, s)
      else
        let createdAt =
              (case created_at body of
                 None \<Rightarrow> now_iso e 0
               | Some c \<Rightarrow> if c \<noteq> [] then c else now_iso e 0)
        in
        case
          query e 0 (upsert_decision
            \<lparr>d_id = pg_uuid (id' body), d_objective = objective body, d_command = command body,
             d_raw_output_hash = raw_output_hash body, d_recommendation = recommendation body,
             d_confidence = confidence body, d_signals = signals body,
             d_embedding_text = embedding_text body, d_embedding = None,
             d_graph_relations = graph_relations body,
             d_created_at = timestamptz e createdAt\<rparr>) s
        of
          (None, s') \<Rightarrow> (internal_error, s')
        | (Some _, s') \<Rightarrow>
            (Decision_201 \<lparr>cd_id = id' body, cd_created = True,
                           cd_decision = body\<lparr>created_at := Some createdAt\<rparr>\<rparr>, s'))"

definition getDecisionHandler :: "env \<Rightarrow> string \<Rightarrow> db \<Rightarrow> response \<times> db" where
  "getDecisionHandler e id_param s =
     (if \<not> is_uuid e id_param then (validation_error, s)
      else
        case query e 0 (select_decision id_param) s of
          (None, s') \<Rightarrow> (internal_error, s')
        | (Some [], s') \<Rightarrow> (not_found, s')
        | (Some (row # _), s') \<Rightarrow> (Decision_200 row, s'))"

definition parsedLimit :: "string option \<Rightarrow> int" where
  \<comment> \<open>\<^verbatim>\<open>Math.min(Math.max(parseInt(limit, 10) || 50, 1), 1000)\<close> with \<^verbatim>\<open>limit = '50'\<close> when absent\<close>
  "parsedLimit q =
     (let limit_text = (case q of None \<Rightarrow> ''50'' | Some l \<Rightarrow> l)
      in min (max (case parseInt limit_text of None \<Rightarrow> 50 | Some n \<Rightarrow> if n \<noteq> 0 then n else 50) 1) 1000)"

definition parsedOffset :: "string option \<Rightarrow> int" where
  \<comment> \<open>\<^verbatim>\<open>Math.max(parseInt(offset, 10) || 0, 0)\<close> with \<^verbatim>\<open>offset = '0'\<close> when absent\<close>
  "parsedOffset q =
     (let offset_text = (case q of None \<Rightarrow> ''0'' | Some f \<Rightarrow> f)
      in max (case parseInt offset_text of None \<Rightarrow> 0 | Some n \<Rightarrow> if n \<noteq> 0 then n else 0) 0)"

definition listDecisionsHandler :: "env \<Rightarrow> list_query \<Rightarrow> db \<Rightarrow> response \<times> db" where
  "listDecisionsHandler e q s =
     (case
        await (query e 0 (count_decisions e (q_objective q))) (\<lambda>counted.
        await (query e 1 (select_decisions e (q_objective q)
                 (parsedLimit (q_limit q)) (parsedOffset (q_offset q)))) (\<lambda>rows.
        return (Decisions_200
                 \<lparr>data = map fst rows, total = counted,
                  limit = parsedLimit (q_limit q), offset = parsedOffset (q_offset q)\<rparr>))) s
      of
        (None, s') \<Rightarrow> (internal_error, s')
      | (Some response, s') \<Rightarrow> (response, s'))"

fun handle :: "env \<Rightarrow> request \<Rightarrow> db \<Rightarrow> response \<times> db" where
  \<comment> \<open>the routes \<^verbatim>\<open>POST /v1/decisions\<close>, \<^verbatim>\<open>GET /v1/decisions/:id\<close>, \<^verbatim>\<open>GET /v1/decisions\<close>
      and \<^verbatim>\<open>POST /decision/approval\<close>\<close>
  "handle e (POST_decisions body) s = createDecisionHandler e body s"
| "handle e (GET_decision id_param) s = getDecisionHandler e id_param s"
| "handle e (GET_decisions q) s = listDecisionsHandler e q s"
| "handle e (POST_approval body) s = createApprovalHandler e body s"

subsection \<open>The ranking the specification describes\<close>

text \<open>
  For comparison with the select query: the specification orders decisions by the weight of
  the one edge from (decision, id) to the recommendation type extracted from the decision's
  recommendation, 0 when there is no such edge, and then by creation time, both descending.
\<close>

definition edge_weight :: "learning_weight list \<Rightarrow> decision_row \<Rightarrow> real" where
  "edge_weight t d =
     (case lw_lookup t (Decision, d_id d, ''recommendation'',
                        extractRecommendationType (d_recommendation d)) of
        None \<Rightarrow> 0
      | Some w \<Rightarrow> weight w)"

definition spec_precedes :: "learning_weight list \<Rightarrow> decision_row \<Rightarrow> decision_row \<Rightarrow> bool" where
  "spec_precedes t a b \<longleftrightarrow>
     edge_weight t a > edge_weight t b \<or>
     (edge_weight t a = edge_weight t b \<and> d_created_at a \<ge> d_created_at b)"

subsection \<open>Sequences of weight updates\<close>

text \<open>
  To state that a table of weights arises from another by upserts with the fixed learning
  rate and by nothing else.
\<close>

type_synonym reward_call = "string \<times> source_type \<times> string \<times> string \<times> real \<times> timestamp"

definition applyRewards :: "reward_call list \<Rightarrow> learning_weight list \<Rightarrow> learning_weight list" where
  \<comment> \<open>The upsert statement run once for each call of the list, in order, each with its
      row identifier, source type, source id, target value, reward and time.\<close>
  "applyRewards calls t =
     foldl (\<lambda>t (new_id, sourceType, sourceId, targetValue, r, now).
              lw_upsert new_id sourceType sourceId targetValue r now LEARNING_RATE t) t calls"

definition by_rewards :: "db \<Rightarrow> db \<Rightarrow> bool" where
  "by_rewards s s' \<longleftrightarrow> (\<exists>calls. learning_weights s' = applyRewards calls (learning_weights s))"

subsection \<open>The writes of one approval\<close>

text \<open>
  The approval row and the six upserts of \<open>createApprovalHandler\<close>, named so that theorems
  can speak of them; lemma \<open>approval_run\<close> shows that the handler writes exactly these.
\<close>

definition approval_record :: "env \<Rightarrow> approval_body \<Rightarrow> approval_row" where
  \<comment> \<open>the row that \<open>createApprovalHandler\<close> inserts into \<^verbatim>\<open>approvals\<close>\<close>
  "approval_record e body =
     \<lparr>a_id = uuidv4 e 1, a_decision_id = pg_uuid (decision_id body),
      a_approved = approved body,
      a_confidence_adjustment =
        (case confidence_adjustment body of
           None \<Rightarrow> None
         | Some a \<Rightarrow> if a \<noteq> 0 then Some a else None),
      a_reward = adjustedReward (approved body) (confidence_adjustment body),
      a_timestamp =
        timestamptz e (case timestamp body of
                         None \<Rightarrow> now_iso e 0
                       | Some t \<Rightarrow> if t \<noteq> [] then t else now_iso e 0),
      a_created_at = timestamptz e (now_iso e 1)\<rparr>"

definition approval_calls :: "env \<Rightarrow> approval_body \<Rightarrow> decision_row \<Rightarrow> reward_call list" where
  \<comment> \<open>the six upserts that \<open>createApprovalHandler\<close> sends for the decision it loaded, as
      its queries 2 to 7\<close>
  "approval_calls e body d =
     (let T = extractRecommendationType (d_recommendation d);
          r = adjustedReward (approved body) (confidence_adjustment body)
      in [(uuidv4 e 2, Decision, decision_id body, T, r, timestamptz e (now_iso e 2)),
          (uuidv4 e 3, Signal, ''risk:'' @ take 50 (risk (d_signals d)), T, r,
             timestamptz e (now_iso e 3)),
          (uuidv4 e 4, Signal, ''financial:'' @ take 50 (financial (d_signals d)), T, r,
             timestamptz e (now_iso e 4)),
          (uuidv4 e 5, Signal, ''complexity:'' @ take 50 (complexity (d_signals d)), T, r,
             timestamptz e (now_iso e 5)),
          (uuidv4 e 6, Objective, take 200 (d_objective d), T, r, timestamptz e (now_iso e 6)),
          (uuidv4 e 7, Decision, ''trajectory:'' @ decision_id body, ''pattern:'' @ T, r,
             timestamptz e (now_iso e 1))])"

subsection \<open>Concrete data for the examples\<close>

definition example_env :: env where
  "example_env =
     \<lparr>is_uuid = (\<lambda>s. length s = 36),
      uuidv4 = (\<lambda>k. ''00000000-0000-4000-8000-00000000000'' @ [''0123456789'' ! (k mod 10)]),
      now_iso = (\<lambda>k. ''2024''),
      timestamptz = (\<lambda>s. case parseInt s of None \<Rightarrow> 0 | Some n \<Rightarrow> n),
      ilike = (\<lambda>text pattern. True),
      throws = (\<lambda>k. False)\<rparr>"

definition example_decision :: "string \<Rightarrow> string \<Rightarrow> string \<Rightarrow> decision_body" where
  "example_decision i r c =
     \<lparr>id' = i, objective = ''reduce cloud spend'', command = ''agentics simulate'',
      raw_output_hash = replicate 64 CHR ''a'', recommendation = r, confidence = ''HIGH'',
      signals = \<lparr>financial = ''ok'', risk = ''low'', complexity = ''low''\<rparr>,
      embedding_text = ''reduce cloud spend'',
      graph_relations = \<lparr>objective_to_repos = [], repos_to_signals = [],
                         signals_to_recommendation = []\<rparr>,
      created_at = Some c\<rparr>"

definition example_approval :: "string \<Rightarrow> bool \<Rightarrow> real option \<Rightarrow> approval_body" where
  "example_approval i a c =
     \<lparr>decision_id = i, approved = a, confidence_adjustment = c, timestamp = None\<rparr>"

definition empty_db :: db where
  "empty_db = \<lparr>decisions = [], approvals = [], learning_weights = []\<rparr>"

definition example_edge :: learning_weight where
  "example_edge =
     \<lparr>lw_id = ''00000000-0000-4000-8000-000000000002'', source_type = Decision,
      source_id = ''d1'', target_type = ''recommendation'', target_value = ''PROCEED'',
      weight = 1, update_count = 1, lw_created_at = 2024, lw_updated_at = 2024\<rparr>"

definition example_id :: string where
  "example_id = ''11111111-1111-4111-8111-111111111111''"

definition state_with_decision :: db where
  \<comment> \<open>the empty store after \<^verbatim>\<open>POST /v1/decisions\<close> of a decision recommending to proceed\<close>
  "state_with_decision =
     snd (handle example_env
            (POST_decisions (example_decision example_id ''PROCEED: ship it'' ''2023'')) empty_db)"

definition example_row :: decision_row where
  "example_row =
     \<lparr>d_id = example_id, d_objective = ''reduce cloud spend'', d_command = ''agentics simulate'',
      d_raw_output_hash = replicate 64 CHR ''a'', d_recommendation = ''PROCEED: ship it'',
      d_confidence = ''HIGH'',
      d_signals = \<lparr>financial = ''ok'', risk = ''low'', complexity = ''low''\<rparr>,
      d_embedding_text = ''reduce cloud spend'', d_embedding = None,
      d_graph_relations = \<lparr>objective_to_repos = [], repos_to_signals = [],
                           signals_to_recommendation = []\<rparr>,
      d_created_at = 2023\<rparr>"

definition failing_env :: env where
  \<comment> \<open>the store fails on query number 6 of a request: in an approval, the upsert of the
      objective edge\<close>
  "failing_env = example_env\<lparr>throws := (\<lambda>k. k = 6)\<rparr>"

definition other_id :: string where
  "other_id = ''22222222-2222-4222-8222-222222222222''"

definition state_approved :: db where
  \<comment> \<open>then the decision is approved with a confidence adjustment of -0.2: reward 0.8\<close>
  "state_approved =
     snd (handle example_env (POST_approval (example_approval example_id True (Some (- (1 / 5)))))
            state_with_decision)"

definition state_redecided :: db where
  \<comment> \<open>then the decision is posted again under the same id, now recommending to defer\<close>
  "state_redecided =
     snd (handle example_env
            (POST_decisions (example_decision example_id ''DEFER: wait a quarter'' ''2025''))
            state_approved)"

definition state_second :: db where
  \<comment> \<open>then a second, later decision is posted, which nobody approves or rejects\<close>
  "state_second =
     snd (handle example_env
            (POST_decisions (example_decision other_id ''DEFER: wait a quarter'' ''2024''))
            state_redecided)"

definition later_env :: env where
  \<comment> \<open>a later request, with identifiers of its own\<close>
  "later_env =
     example_env\<lparr>uuidv4 :=
       (\<lambda>k. ''00000000-0000-4000-8000-00000000001'' @ [''0123456789'' ! (k mod 10)])\<rparr>"

definition state_two :: db where
  \<comment> \<open>alternatively, after the approval a second, later decision recommending to proceed is
      posted and rejected with a confidence adjustment of -0.8: reward -0.2\<close>
  "state_two =
     snd (handle later_env (POST_approval (example_approval other_id False (Some (- (4 / 5)))))
       (snd (handle example_env
               (POST_decisions (example_decision other_id ''PROCEED: go ahead'' ''2024''))
               state_approved)))"

definition redecided_row :: decision_row where
  "redecided_row = example_row\<lparr>d_recommendation := ''DEFER: wait a quarter''\<rparr>"

definition second_row :: decision_row where
  "second_row =
     example_row\<lparr>d_id := other_id, d_recommendation := ''DEFER: wait a quarter'',
                 d_created_at := 2024\<rparr>"

definition other_row :: decision_row where
  "other_row =
     example_row\<lparr>d_id := other_id, d_recommendation := ''PROCEED: go ahead'',
                 d_created_at := 2024\<rparr>"

definition list_all_query :: list_query where
  "list_all_query = \<lparr>q_objective = None, q_limit = None, q_offset = None\<rparr>"

definition approved_edges :: "learning_weight list" where
  \<comment> \<open>the ledger after the approval of the example decision\<close>
  "approved_edges =
     [\<lparr>lw_id = ''00000000-0000-4000-8000-000000000002'', source_type = Decision,
     source_id = ''11111111-1111-4111-8111-111111111111'',
     target_type = ''recommendation'', target_value = ''PROCEED'',
     weight = 4 / 5, update_count = 1, lw_created_at = 2024,
     lw_updated_at = 2024\<rparr>,
     \<lparr>lw_id = ''00000000-0000-4000-8000-000000000003'', source_type = Signal,
     source_id = ''risk:low'', target_type = ''recommendation'',
     target_value = ''PROCEED'', weight = 4 / 5, update_count = 1,
     lw_created_at = 2024, lw_updated_at = 2024\<rparr>,
     \<lparr>lw_id = ''00000000-0000-4000-8000-000000000004'', source_type = Signal,
     source_id = ''financial:ok'', target_type = ''recommendation'',
     target_value = ''PROCEED'', weight = 4 / 5, update_count = 1,
     lw_created_at = 2024, lw_updated_at = 2024\<rparr>,
     \<lparr>lw_id = ''00000000-0000-4000-8000-000000000005'', source_type = Signal,
     source_id = ''complexity:low'', target_type = ''recommendation'',
     target_value = ''PROCEED'', weight = 4 / 5, update_count = 1,
     lw_created_at = 2024, lw_updated_at = 2024\<rparr>,
     \<lparr>lw_id = ''00000000-0000-4000-8000-000000000006'',
     source_type = Objective, source_id = ''reduce cloud spend'',
     target_type = ''recommendation'', target_value = ''PROCEED'',
     weight = 4 / 5, update_count = 1, lw_created_at = 2024,
     lw_updated_at = 2024\<rparr>,
     \<lparr>lw_id = ''00000000-0000-4000-8000-000000000007'', source_type = Decision,
     source_id = ''trajectory:11111111-1111-4111-8111-111111111111'',
     target_type = ''recommendation'', target_value = ''pattern:PROCEED'',
     weight = 4 / 5, update_count = 1, lw_created_at = 2024,
     lw_updated_at = 2024\<rparr>]"

definition rated_edges :: "learning_weight list" where
  \<comment> \<open>the ledger after the approval of the example decision and the rejection of the
      second one\<close>
  "rated_edges =
     [\<lparr>lw_id = ''00000000-0000-4000-8000-000000000002'', source_type = Decision,
     source_id = ''11111111-1111-4111-8111-111111111111'',
     target_type = ''recommendation'', target_value = ''PROCEED'',
     weight = 4 / 5, update_count = 1, lw_created_at = 2024,
     lw_updated_at = 2024\<rparr>,
     \<lparr>lw_id = ''00000000-0000-4000-8000-000000000003'', source_type = Signal,
     source_id = ''risk:low'', target_type = ''recommendation'',
     target_value = ''PROCEED'', weight = 7 / 10, update_count = 2,
     lw_created_at = 2024, lw_updated_at = 2024\<rparr>,
     \<lparr>lw_id = ''00000000-0000-4000-8000-000000000004'', source_type = Signal,
     source_id = ''financial:ok'', target_type = ''recommendation'',
     target_value = ''PROCEED'', weight = 7 / 10, update_count = 2,
     lw_created_at = 2024, lw_updated_at = 2024\<rparr>,
     \<lparr>lw_id = ''00000000-0000-4000-8000-000000000005'', source_type = Signal,
     source_id = ''complexity:low'', target_type = ''recommendation'',
     target_value = ''PROCEED'', weight = 7 / 10, update_count = 2,
     lw_created_at = 2024, lw_updated_at = 2024\<rparr>,
     \<lparr>lw_id = ''00000000-0000-4000-8000-000000000006'',
     source_type = Objective, source_id = ''reduce cloud spend'',
     target_type = ''recommendation'', target_value = ''PROCEED'',
     weight = 7 / 10, update_count = 2, lw_created_at = 2024,
     lw_updated_at = 2024\<rparr>,
     \<lparr>lw_id = ''00000000-0000-4000-8000-000000000007'', source_type = Decision,
     source_id = ''trajectory:11111111-1111-4111-8111-111111111111'',
     target_type = ''recommendation'', target_value = ''pattern:PROCEED'',
     weight = 4 / 5, update_count = 1, lw_created_at = 2024,
     lw_updated_at = 2024\<rparr>,
     \<lparr>lw_id = ''00000000-0000-4000-8000-000000000012'', source_type = Decision,
     source_id = ''22222222-2222-4222-8222-222222222222'',
     target_type = ''recommendation'', target_value = ''PROCEED'',
     weight = - (1 / 5), update_count = 1, lw_created_at = 2024,
     lw_updated_at = 2024\<rparr>,
     \<lparr>lw_id = ''00000000-0000-4000-8000-000000000017'', source_type = Decision,
     source_id = ''trajectory:22222222-2222-4222-8222-222222222222'',
     target_type = ''recommendation'', target_value = ''pattern:PROCEED'',
     weight = - (1 / 5), update_count = 1, lw_created_at = 2024,
     lw_updated_at = 2024\<rparr>]"

section \<open>Recommendation-type extraction\<close>

lemma upper_take:
  assumes "prefix w (map toUpperCase r)"
  shows "map toUpperCase (take (length w) r) = w"
proof -
  from assms obtain rest where "map toUpperCase r = w @ rest"
    by (auto simp: prefix_def)
  then have "take (length w) (map toUpperCase r) = w"
    by simp
  then show ?thesis
    by (simp add: take_map)
qed

lemma extract_cases:
  "extractRecommendationType r =
     (case find (\<lambda>w. prefix w (map toUpperCase r)) recommendation_words of
        None \<Rightarrow> ''UNKNOWN''
      | Some w \<Rightarrow> w)"
proof (cases "find (\<lambda>w. prefix w (map toUpperCase r)) recommendation_words")
  case None
  then show ?thesis
    by (simp add: extractRecommendationType_def regex_match_def)
next
  case (Some w)
  then have "prefix w (map toUpperCase r)"
    by (auto simp: find_Some_iff)
  then show ?thesis
    using Some by (simp add: extractRecommendationType_def regex_match_def upper_take)
qed

lemma words_incomparable:
  assumes "w1 \<in> set recommendation_words" and "w2 \<in> set recommendation_words"
    and "prefix w1 u" and "prefix w2 u"
  shows "w1 = w2"
  using assms prefix_same_cases[of w1 u w2]
  by (auto simp: recommendation_words_def)

lemma extract_in_range:
  "extractRecommendationType r \<in> set (recommendation_words @ [''UNKNOWN''])"
  by (auto simp: extract_cases recommendation_words_def split: option.splits if_splits)

lemma extract_word_iff:
  assumes "w \<in> set recommendation_words"
  shows "extractRecommendationType r = w \<longleftrightarrow> prefix w (map toUpperCase r)"
proof
  assume "extractRecommendationType r = w"
  then show "prefix w (map toUpperCase r)"
    using assms
    by (auto simp: extract_cases recommendation_words_def split: option.splits if_splits)
next
  assume p: "prefix w (map toUpperCase r)"
  then obtain w' where f: "find (\<lambda>w. prefix w (map toUpperCase r)) recommendation_words = Some w'"
    using assms
    by (cases "find (\<lambda>w. prefix w (map toUpperCase r)) recommendation_words")
       (auto simp: find_None_iff)
  then have "w' \<in> set recommendation_words" and "prefix w' (map toUpperCase r)"
    by (auto simp: find_Some_iff)
  then have "w' = w"
    using words_incomparable assms p by blast
  then show "extractRecommendationType r = w"
    using f by (simp add: extract_cases)
qed

lemma extract_unknown_iff:
  "extractRecommendationType r = ''UNKNOWN'' \<longleftrightarrow>
     (\<forall>w\<in>set recommendation_words. \<not> prefix w (map toUpperCase r))"
  by (auto simp: extract_cases find_None_iff recommendation_words_def
           split: option.splits if_splits)

text \<open>
  C5, as the code has it. \<open>extractRecommendationType\<close> is total and returns one of PROCEED,
  DEFER, REJECT, REVIEW, HALT, UNKNOWN. It returns a word of the fixed set exactly when the
  text begins with that word, letters compared without regard to case, whatever character
  follows the word; it returns UNKNOWN exactly when the text begins with none of the five
  words.
\<close>

theorem extractRecommendationType_prefix:
  "extractRecommendationType r \<in> set (recommendation_words @ [''UNKNOWN'']) \<and>
   (\<forall>w\<in>set recommendation_words.
      extractRecommendationType r = w \<longleftrightarrow> prefix w (map toUpperCase r)) \<and>
   (extractRecommendationType r = ''UNKNOWN'' \<longleftrightarrow>
      (\<forall>w\<in>set recommendation_words. \<not> prefix w (map toUpperCase r)))"
  using extract_in_range extract_word_iff extract_unknown_iff by blast

text \<open>
  C5, witness: the text \<open>Halt now\<close> begins with HALT in lower and upper case letters and is
  classified HALT.
\<close>

theorem extractRecommendationType_prefix_witness:
  "''HALT'' \<in> set recommendation_words \<and> prefix ''HALT'' (map toUpperCase ''Halt now'') \<and>
   extractRecommendationType ''Halt now'' = ''HALT''"
  using extractRecommendationType_prefix [of "''Halt now''"]
  by (simp add: recommendation_words_def toUpperCase_def)

text \<open>
  C5, counterexample to the claim as stated. The leading token of
  \<open>PROCEEDING with care\<close> is PROCEEDING, which is none of the five words, so the claim
  classifies the text UNKNOWN; the code classifies it PROCEED.
\<close>

theorem extractRecommendationType_token_counterexample:
  "leading_token ''PROCEEDING with care'' = ''PROCEEDING'' \<and>
   spec_recommendation_type ''PROCEEDING with care'' = ''UNKNOWN'' \<and>
   extractRecommendationType ''PROCEEDING with care'' = ''PROCEED''"
  by (simp add: leading_token_def is_letter_def spec_recommendation_type_def
        extractRecommendationType_def regex_match_def recommendation_words_def toUpperCase_def)

section \<open>The weight ledger\<close>

subsection \<open>Looking up a row after the upsert\<close>

lemma find_append_single:
  "find P (t @ [x]) = (case find P t of None \<Rightarrow> (if P x then Some x else None) | Some y \<Rightarrow> Some y)"
  by (induction t) auto

lemma find_map_keep:
  assumes "\<And>w. P (f w) = P w"
  shows "find P (map f t) = map_option f (find P t)"
  using assms by (induction t) auto

lemma lw_lookup_upsert:
  "lw_lookup (lw_upsert i st sid tv r now rate t) k =
     (if k = (st, sid, ''recommendation'', tv)
      then Some (case lw_lookup t k of
                   None \<Rightarrow> \<lparr>lw_id = i, source_type = st, source_id = sid,
                             target_type = ''recommendation'', target_value = tv, weight = r,
                             update_count = 1, lw_created_at = now, lw_updated_at = now\<rparr>
                 | Some w \<Rightarrow> w\<lparr>weight := weight w + rate * (r - weight w),
                                update_count := update_count w + 1, lw_updated_at := now\<rparr>)
      else lw_lookup t k)"
proof (cases "lw_lookup t (st, sid, ''recommendation'', tv)")
  case None
  then show ?thesis
    by (auto simp: lw_upsert_def lw_lookup_def find_append_single lw_key_def split: option.splits)
next
  case (Some w0)
  let ?f = "\<lambda>w. if lw_key w = (st, sid, ''recommendation'', tv)
                    then w\<lparr>weight := weight w + rate * (r - weight w),
                           update_count := update_count w + 1,
                           lw_updated_at := now\<rparr>
                    else w"
  have key: "\<And>w. lw_key (?f w) = lw_key w" by (simp add: lw_key_def)
  have "lw_lookup (map ?f t) k = map_option ?f (lw_lookup t k)"
    unfolding lw_lookup_def by (rule find_map_keep) (simp add: key)
  moreover have "\<And>w. lw_lookup t k = Some w \<Longrightarrow> lw_key w = k"
    by (auto simp: lw_lookup_def find_Some_iff)
  ultimately show ?thesis using Some
    by (cases "lw_lookup t k") (auto simp: lw_upsert_def)
qed

subsection \<open>What every handler preserves\<close>

lemma snd_respond:
  "snd (case x of (None, s') \<Rightarrow> (a, s') | (Some r, s') \<Rightarrow> (f r, s')) = snd x"
  by (cases x) (auto split: option.splits)

lemma return_keeps:
  assumes "reflp R"
  shows "R s (snd (return a s))"
  using assms by (simp add: return_def reflpD)

lemma await_keeps:
  assumes trans: "transp R"
    and m: "\<And>s. R s (snd (m s))"
    and f: "\<And>a s. R s (snd (f a s))"
  shows "R s (snd (await m f s))"
proof (cases "m s")
  case (Pair r s')
  then have 1: "R s s'" using m[of s] by simp
  show ?thesis
  proof (cases r)
    case None
    then show ?thesis using Pair 1 by (simp add: await_def)
  next
    case (Some a)
    then have "await m f s = f a s'" using Pair by (simp add: await_def)
    then show ?thesis using transpD[OF trans 1 f[of s' a]] by simp
  qed
qed

lemma query_keeps:
  assumes "reflp R" and "\<And>s. R s (snd (statement s))"
  shows "R s (snd (query e k statement s))"
proof (cases "throws e k")
  case True
  then show ?thesis using assms(1) by (simp add: query_def reflpD)
next
  case False
  then have "snd (query e k statement s) = snd (statement s)"
    by (simp add: query_def split: prod.splits)
  then show ?thesis using assms(2) by simp
qed

lemma updateLearningWeight_keeps:
  assumes "reflp R"
    and "\<And>i st sid tv r now s. R s (snd (upsert_learning_weight i st sid tv r now LEARNING_RATE s))"
  shows "R s (snd (updateLearningWeight e k st sid tv r s))"
  unfolding updateLearningWeight_def Let_def
  by (rule query_keeps[OF assms(1)]) (rule assms(2))

lemma for_signals_keeps:
  assumes refl: "reflp R"
    and trans: "transp R"
    and up: "\<And>i st sid tv r now s. R s (snd (upsert_learning_weight i st sid tv r now LEARNING_RATE s))"
  shows "R s (snd (for_signals e k xs T r n s))"
proof (induction xs arbitrary: k n s)
  case Nil
  then show ?case by (simp add: return_keeps refl)
next
  case (Cons x xs)
  obtain a b where x: "x = (a, b)" by (cases x)
  show ?case
    unfolding x for_signals.simps Let_def
  proof (rule await_keeps[OF trans])
    show "R s (snd (updateLearningWeight e k Signal (a @ '':'' @ take 50 b) T r s))" for s
      by (rule updateLearningWeight_keeps[OF refl up])
    show "R s (snd (for_signals e (Suc k) xs T r (n + 1) s))" for s
      by (rule Cons.IH)
  qed
qed

lemma createApprovalHandler_keeps:
  assumes refl: "reflp R"
    and trans: "transp R"
    and ins: "\<And>row s. R s (snd (insert_approval row s))"
    and up: "\<And>i st sid tv r now s. R s (snd (upsert_learning_weight i st sid tv r now LEARNING_RATE s))"
  shows "R s (snd (createApprovalHandler e body s))"
proof (cases "createApprovalSchema e body")
  case False
  then show ?thesis by (simp add: createApprovalHandler_def reflpD[OF refl])
next
  case True
  note step = await_keeps[OF trans]
  have sel: "R s (snd (select_decision i s))" for i s
    by (simp add: select_decision_def reflpD[OF refl])
  show ?thesis
    unfolding createApprovalHandler_def Let_def using True
    apply (simp only: if_False not_True_eq_False snd_respond[where f="\<lambda>r. r"] simp_thms)
    apply (rule step)
     apply (rule query_keeps[OF refl sel])
    apply (simp split: list.splits add: return_keeps refl)
    apply (intro allI impI)
    apply (rule step)
     apply (rule query_keeps[OF refl ins])
    apply (rule step)
     apply (rule updateLearningWeight_keeps[OF refl up])
    apply (rule step)
     apply (rule for_signals_keeps[OF refl trans up])
    apply (rule step)
     apply (rule updateLearningWeight_keeps[OF refl up])
    apply (rule step)
     apply (rule query_keeps[OF refl up])
    apply (rule return_keeps[OF refl])
    done
qed

lemma applyRewards_append:
  "applyRewards (xs @ ys) t = applyRewards ys (applyRewards xs t)"
  by (simp add: applyRewards_def)

lemma by_rewards_reflp: "reflp by_rewards"
proof (rule reflpI)
  fix s :: db
  have "learning_weights s = applyRewards [] (learning_weights s)"
    by (simp add: applyRewards_def)
  then show "by_rewards s s" unfolding by_rewards_def by blast
qed

lemma by_rewards_transp: "transp by_rewards"
proof (rule transpI)
  fix a b c :: db
  assume "by_rewards a b" and "by_rewards b c"
  then obtain xs ys where "learning_weights b = applyRewards xs (learning_weights a)"
    and "learning_weights c = applyRewards ys (learning_weights b)"
    unfolding by_rewards_def by blast
  then have "learning_weights c = applyRewards (xs @ ys) (learning_weights a)"
    by (simp add: applyRewards_append)
  then show "by_rewards a c" unfolding by_rewards_def by blast
qed

lemma by_rewards_upsert:
  "by_rewards s (snd (upsert_learning_weight i st sid tv r now LEARNING_RATE s))"
proof -
  have "learning_weights (snd (upsert_learning_weight i st sid tv r now LEARNING_RATE s)) =
        applyRewards [(i, st, sid, tv, r, now)] (learning_weights s)"
    by (simp add: upsert_learning_weight_def applyRewards_def)
  then show ?thesis unfolding by_rewards_def by blast
qed

lemma by_rewards_same:
  assumes "learning_weights s' = learning_weights s"
  shows "by_rewards s s'"
  using assms reflpD[OF by_rewards_reflp, of s] by (simp add: by_rewards_def)

lemma handle_by_rewards: "by_rewards s (snd (handle e req s))"
proof (cases req)
  case (POST_decisions body)
  then show ?thesis
    by (auto intro!: by_rewards_same
        simp: createDecisionHandler_def query_def upsert_decision_def Let_def)
next
  case (GET_decision i)
  then show ?thesis
    by (auto intro!: by_rewards_same
        simp: getDecisionHandler_def query_def select_decision_def split: list.splits)
next
  case (GET_decisions q)
  then show ?thesis
    by (auto intro!: by_rewards_same
        simp: listDecisionsHandler_def await_def return_def query_def count_decisions_def
          select_decisions_def)
next
  case (POST_approval body)
  have "by_rewards s (snd (createApprovalHandler e body s))"
    by (rule createApprovalHandler_keeps[OF by_rewards_reflp by_rewards_transp])
       (auto intro: by_rewards_upsert by_rewards_same simp: insert_approval_def)
  then show ?thesis using POST_approval by simp
qed

text \<open>
  C1. The upsert of the weight ledger, with the fixed learning rate: the row of the key
  \<open>(sourceType, sourceId, recommendation, targetValue)\<close> afterwards has weight \<open>reward\<close> and
  update count 1 when there was no such row, and weight \<open>old + 0.1 * (reward - old)\<close> and
  update count one more when there was; the row of every other key is as before.
  \<open>updateLearningWeight\<close> runs this statement or throws and writes nothing. Every request
  the service handles changes the table \<open>learning_weights\<close> by a sequence of such upserts
  and in no other way.
\<close>

theorem applyReward_rule:
  "(\<exists>w. lw_lookup (lw_upsert i st sid tv r now LEARNING_RATE t) (st, sid, ''recommendation'', tv) = Some w \<and>
        (case lw_lookup t (st, sid, ''recommendation'', tv) of
           None \<Rightarrow> weight w = r \<and> update_count w = 1
         | Some old \<Rightarrow> weight w = weight old + 0.1 * (r - weight old) \<and>
                        update_count w = update_count old + 1)) \<and>
   (\<forall>k'. k' \<noteq> (st, sid, ''recommendation'', tv) \<longrightarrow>
      lw_lookup (lw_upsert i st sid tv r now LEARNING_RATE t) k' = lw_lookup t k') \<and>
   updateLearningWeight e k st sid tv r s =
     (if throws e k then (None, s)
      else (Some (), s\<lparr>learning_weights :=
              lw_upsert (uuidv4 e k) st sid tv r (timestamptz e (now_iso e k)) LEARNING_RATE
                (learning_weights s)\<rparr>)) \<and>
   (\<exists>calls. learning_weights (snd (handle e req s)) = applyRewards calls (learning_weights s))"
proof (intro conjI)
  show "\<exists>w. lw_lookup (lw_upsert i st sid tv r now LEARNING_RATE t) (st, sid, ''recommendation'', tv) = Some w \<and>
        (case lw_lookup t (st, sid, ''recommendation'', tv) of
           None \<Rightarrow> weight w = r \<and> update_count w = 1
         | Some old \<Rightarrow> weight w = weight old + 0.1 * (r - weight old) \<and>
                        update_count w = update_count old + 1)"
    by (simp add: lw_lookup_upsert LEARNING_RATE_def split: option.splits)
  show "\<forall>k'. k' \<noteq> (st, sid, ''recommendation'', tv) \<longrightarrow>
      lw_lookup (lw_upsert i st sid tv r now LEARNING_RATE t) k' = lw_lookup t k'"
    by (simp add: lw_lookup_upsert)
  show "updateLearningWeight e k st sid tv r s =
     (if throws e k then (None, s)
      else (Some (), s\<lparr>learning_weights :=
              lw_upsert (uuidv4 e k) st sid tv r (timestamptz e (now_iso e k)) LEARNING_RATE
                (learning_weights s)\<rparr>))"
    by (simp add: updateLearningWeight_def query_def upsert_learning_weight_def Let_def)
  show "\<exists>calls. learning_weights (snd (handle e req s)) = applyRewards calls (learning_weights s)"
    using handle_by_rewards[of s e req] by (simp add: by_rewards_def)
qed

text \<open>
  C1, witness: a rejection (reward -1) on the existing edge of weight 1 and update count 1
  gives weight 0.8 and update count 2, and leaves the (absent) row of another key absent.
\<close>

theorem applyReward_rule_witness:
  "(Signal, ''risk:low'', ''recommendation'', ''PROCEED'') \<noteq>
     (Decision, ''d1'', ''recommendation'', ''PROCEED'') \<and>
   (\<exists>w. lw_lookup (lw_upsert ''x'' Decision ''d1'' ''PROCEED'' (- 1) 2025 LEARNING_RATE [example_edge])
          (Decision, ''d1'', ''recommendation'', ''PROCEED'') = Some w \<and>
        weight w = 4 / 5 \<and> update_count w = 2) \<and>
   lw_lookup (lw_upsert ''x'' Decision ''d1'' ''PROCEED'' (- 1) 2025 LEARNING_RATE [example_edge])
     (Signal, ''risk:low'', ''recommendation'', ''PROCEED'') = None"
  using applyReward_rule [where i = "''x''" and st = Decision and sid = "''d1''"
      and tv = "''PROCEED''" and r = "- 1" and now = 2025 and t = "[example_edge]"
      and e = example_env and k = 2 and s = empty_db
      and req = "GET_decision ''d1''"]
  by (simp add: lw_lookup_def lw_key_def example_edge_def)

section \<open>The approval handler\<close>

lemma find_filter:
  "find P xs = Some x \<Longrightarrow> \<exists>ys. filter P xs = x # ys"
  by (induction xs) (auto split: if_splits)

lemma approval_run:
  assumes "createApprovalSchema e body" and "\<not> throws e 0" and "\<not> throws e 1"
    and "find (\<lambda>d. d_id d = pg_uuid (decision_id body)) (decisions s) = Some d"
  shows "createApprovalHandler e body s =
     (let n = length (takeWhile (\<lambda>k. \<not> throws e k) [2, 3, 4, 5, 6, 7])
      in (if n = 6
          then Approval_201 \<lparr>r_id = uuidv4 e 1, r_decision_id = decision_id body,
                 r_reward = adjustedReward (approved body) (confidence_adjustment body),
                 weights_updated = 6, learning_applied = True\<rparr>
          else internal_error,
          s\<lparr>approvals := approvals s @ [approval_record e body],
            learning_weights := applyRewards (take n (approval_calls e body d)) (learning_weights s)\<rparr>))"
proof -
  obtain ds where f: "filter (\<lambda>d. d_id d = pg_uuid (decision_id body)) (decisions s) = d # ds"
    using find_filter[OF assms(4)] by blast
  show ?thesis
    using assms(1-3) f
    by (simp add: createApprovalHandler_def select_decision_def await_def query_def return_def
      insert_approval_def updateLearningWeight_def upsert_learning_weight_def entries_def Let_def
      applyRewards_def approval_calls_def approval_record_def)
qed

lemma find_None_filter:
  "find P xs = None \<Longrightarrow> filter P xs = []"
  by (induction xs) (auto split: if_splits)

lemma createApprovalHandler_cases:
  "createApprovalHandler e body s =
     (if \<not> createApprovalSchema e body then (validation_error, s)
      else if throws e 0 then (internal_error, s)
      else case find (\<lambda>d. d_id d = pg_uuid (decision_id body)) (decisions s) of
        None \<Rightarrow> (not_found, s)
      | Some d \<Rightarrow>
          if throws e 1 then (internal_error, s)
          else
            (let n = length (takeWhile (\<lambda>k. \<not> throws e k) [2, 3, 4, 5, 6, 7])
             in (if n = 6
                 then Approval_201 \<lparr>r_id = uuidv4 e 1, r_decision_id = decision_id body,
                        r_reward = adjustedReward (approved body) (confidence_adjustment body),
                        weights_updated = 6, learning_applied = True\<rparr>
                 else internal_error,
                 s\<lparr>approvals := approvals s @ [approval_record e body],
                   learning_weights :=
                     applyRewards (take n (approval_calls e body d)) (learning_weights s)\<rparr>)))"
proof -
  consider (invalid) "\<not> createApprovalSchema e body"
    | (t0) "createApprovalSchema e body" "throws e 0"
    | (none) "createApprovalSchema e body" "\<not> throws e 0"
        "find (\<lambda>d. d_id d = pg_uuid (decision_id body)) (decisions s) = None"
    | (t1) d where "createApprovalSchema e body" "\<not> throws e 0"
        "find (\<lambda>d. d_id d = pg_uuid (decision_id body)) (decisions s) = Some d" "throws e 1"
    | (run) d where "createApprovalSchema e body" "\<not> throws e 0"
        "find (\<lambda>d. d_id d = pg_uuid (decision_id body)) (decisions s) = Some d" "\<not> throws e 1"
    by (cases "find (\<lambda>d. d_id d = pg_uuid (decision_id body)) (decisions s)") auto
  then show ?thesis
  proof cases
    case invalid
    then show ?thesis by (simp add: createApprovalHandler_def)
  next
    case t0
    then show ?thesis by (simp add: createApprovalHandler_def await_def query_def)
  next
    case none
    then show ?thesis
      by (simp add: createApprovalHandler_def await_def query_def select_decision_def
          find_None_filter return_def)
  next
    case t1
    obtain ds where "filter (\<lambda>d. d_id d = pg_uuid (decision_id body)) (decisions s) = d # ds"
      using find_filter[OF t1(3)] by blast
    then show ?thesis using t1
      by (simp add: createApprovalHandler_def await_def query_def select_decision_def Let_def)
  next
    case run
    then show ?thesis using approval_run[OF run(1,2,4,3)] by simp
  qed
qed

lemma approval_201_only_if:
  assumes "fst (createApprovalHandler e body s) = Approval_201 resp"
  shows "createApprovalSchema e body \<and> \<not> throws e 0 \<and> \<not> throws e 1 \<and>
         length (takeWhile (\<lambda>k. \<not> throws e k) [2, 3, 4, 5, 6, 7]) = 6 \<and>
         find (\<lambda>d. d_id d = pg_uuid (decision_id body)) (decisions s) \<noteq> None \<and>
         resp = \<lparr>r_id = uuidv4 e 1, r_decision_id = decision_id body,
                  r_reward = adjustedReward (approved body) (confidence_adjustment body),
                  weights_updated = 6, learning_applied = True\<rparr>"
  using assms unfolding createApprovalHandler_cases
  by (simp only: Let_def split: if_splits option.splits) auto

text \<open>
  C10. Every response of \<open>createApprovalHandler\<close> with status 201 is an approval response
  with \<open>weights_updated = 6\<close> and \<open>learning_applied = True\<close>, whatever the decision holds and
  whether the edges it touches existed before.
\<close>

theorem approval_weights_updated:
  assumes "status (fst (createApprovalHandler e body s)) = 201"
  shows "\<exists>resp. fst (createApprovalHandler e body s) = Approval_201 resp \<and>
           weights_updated resp = 6 \<and> learning_applied resp = True"
proof -
  obtain resp where "fst (createApprovalHandler e body s) = Approval_201 resp"
    using assms unfolding createApprovalHandler_cases
    by (simp only: Let_def split: if_splits option.splits) auto
  then show ?thesis using approval_201_only_if by fastforce
qed

lemma approval_201_state:
  assumes "fst (createApprovalHandler e body s) = Approval_201 resp"
    and "find (\<lambda>d. d_id d = pg_uuid (decision_id body)) (decisions s) = Some d"
  shows "snd (createApprovalHandler e body s) =
           s\<lparr>approvals := approvals s @ [approval_record e body],
             learning_weights := applyRewards (approval_calls e body d) (learning_weights s)\<rparr>"
proof -
  have len: "length (approval_calls e body d) = 6"
    by (simp add: approval_calls_def Let_def)
  show ?thesis
    using approval_201_only_if[OF assms(1)] assms(2) len
    by (simp add: createApprovalHandler_cases Let_def)
qed

text \<open>
  C2. A successful approval (response 201) for the decision \<open>d\<close> that \<open>decision_id\<close>
  resolves to, with reward \<open>r\<close> and recommendation type \<open>T\<close>, upserts the rows of six
  different keys: (decision, decision id) to \<open>T\<close>; (signal, type:first 50 characters of the
  signal text) to \<open>T\<close> for financial, risk and complexity; (objective, first 200 characters
  of the objective) to \<open>T\<close>; (decision, trajectory:decision id) to pattern:\<open>T\<close>. Each of
  these rows is seeded with \<open>r\<close> and count 1, or moved by the moving-average rule and
  counted once more; the row of every other key is as it was.
\<close>

theorem approval_edge_set:
  assumes "fst (createApprovalHandler e body s) = Approval_201 resp"
    and "find (\<lambda>d. d_id d = pg_uuid (decision_id body)) (decisions s) = Some d"
  shows
    "let T = extractRecommendationType (d_recommendation d);
         r = r_reward resp;
         edges =
           [(Decision, decision_id body, ''recommendation'', T),
            (Signal, ''financial:'' @ take 50 (financial (d_signals d)), ''recommendation'', T),
            (Signal, ''risk:'' @ take 50 (risk (d_signals d)), ''recommendation'', T),
            (Signal, ''complexity:'' @ take 50 (complexity (d_signals d)), ''recommendation'', T),
            (Objective, take 200 (d_objective d), ''recommendation'', T),
            (Decision, ''trajectory:'' @ decision_id body, ''recommendation'', ''pattern:'' @ T)];
         t = learning_weights s;
         t' = learning_weights (snd (createApprovalHandler e body s))
     in r = adjustedReward (approved body) (confidence_adjustment body) \<and>
        distinct edges \<and>
        (\<forall>k\<in>set edges.
           map_option (\<lambda>w. (weight w, update_count w)) (lw_lookup t' k) =
             Some (case lw_lookup t k of
                     None \<Rightarrow> (r, 1)
                   | Some old \<Rightarrow> (weight old + 0.1 * (r - weight old), update_count old + 1))) \<and>
        (\<forall>k. k \<notin> set edges \<longrightarrow> lw_lookup t' k = lw_lookup t k)"
proof -
  have r: "r_reward resp = adjustedReward (approved body) (confidence_adjustment body)"
    using approval_201_only_if[OF assms(1)] by simp
  show ?thesis
    unfolding Let_def approval_201_state[OF assms] r
    by (auto simp: applyRewards_def approval_calls_def Let_def lw_lookup_upsert LEARNING_RATE_def
          split: option.splits)
qed

lemma first_thrower:
  assumes "2 \<le> k" and "k \<le> 7" and "throws e k" and "\<forall>j. 2 \<le> j \<and> j < k \<longrightarrow> \<not> throws e j"
  shows "length (takeWhile (\<lambda>j. \<not> throws e j) [2, 3, 4, 5, 6, 7]) = k - 2"
proof -
  from assms(1,2) consider "k = 2" | "k = 3" | "k = 4" | "k = 5" | "k = 6" | "k = 7"
    by arith
  then show ?thesis
  proof cases
    case 1 then show ?thesis using assms(3) by simp
  next
    case 2 then show ?thesis using assms(3) assms(4)[rule_format, of 2] by simp
  next
    case 3 then show ?thesis
      using assms(3) assms(4)[rule_format, of 2] assms(4)[rule_format, of 3] by simp
  next
    case 4 then show ?thesis
      using assms(3) assms(4)[rule_format, of 2] assms(4)[rule_format, of 3]
        assms(4)[rule_format, of 4] by simp
  next
    case 5 then show ?thesis
      using assms(3) assms(4)[rule_format, of 2] assms(4)[rule_format, of 3]
        assms(4)[rule_format, of 4] assms(4)[rule_format, of 5] by simp
  next
    case 6 then show ?thesis
      using assms(3) assms(4)[rule_format, of 2] assms(4)[rule_format, of 3]
        assms(4)[rule_format, of 4] assms(4)[rule_format, of 5] assms(4)[rule_format, of 6]
      by simp
  qed
qed

text \<open>
  C6, as the code has it. When the approval has been recorded and query \<open>k\<close> (one of the six
  edge upserts, numbered 2 to 7) is the first to throw, the handler answers 500
  \<open>internal_error\<close>, a response without \<open>weights_updated\<close>; the approval record stays, the
  \<open>k - 2\<close> upserts sent before the failing one stay applied, and the later ones are not sent.
\<close>

theorem approval_edge_failure:
  assumes "createApprovalSchema e body" and "\<not> throws e 0" and "\<not> throws e 1"
    and "find (\<lambda>d. d_id d = pg_uuid (decision_id body)) (decisions s) = Some d"
    and "2 \<le> k" and "k \<le> 7" and "throws e k"
    and "\<forall>j. 2 \<le> j \<and> j < k \<longrightarrow> \<not> throws e j"
  shows "fst (createApprovalHandler e body s) = internal_error \<and>
         status (fst (createApprovalHandler e body s)) = 500 \<and>
         snd (createApprovalHandler e body s) =
           s\<lparr>approvals := approvals s @ [approval_record e body],
             learning_weights :=
               applyRewards (take (k - 2) (approval_calls e body d)) (learning_weights s)\<rparr>"
proof -
  have n: "length (takeWhile (\<lambda>j. \<not> throws e j) [2, 3, 4, 5, 6, 7]) = k - 2"
    using first_thrower[OF assms(5-8)] .
  have "k - 2 \<noteq> 6" using assms(6) by arith
  then show ?thesis
    using assms(1-4) unfolding createApprovalHandler_cases Let_def n by simp
qed

text \<open>
  C7. When \<open>decision_id\<close> resolves to no stored decision, the handler leaves the store as
  it was (no approval row, no weight row), and for a body that passes validation and a
  store that answers the lookup the response is \<open>not_found\<close>, status 404.
\<close>

theorem approval_not_found:
  assumes "find (\<lambda>d. d_id d = pg_uuid (decision_id body)) (decisions s) = None"
  shows "snd (createApprovalHandler e body s) = s \<and>
         (createApprovalSchema e body \<and> \<not> throws e 0 \<longrightarrow>
            fst (createApprovalHandler e body s) = not_found \<and>
            status (fst (createApprovalHandler e body s)) = 404)"
  using assms by (simp add: createApprovalHandler_cases)

text \<open>
  C4. Without an adjustment the reward is 1 for an approval and -1 for a rejection; with
  an adjustment \<open>a\<close> in \<open>[-1, 1]\<close> it is that base reward times \<open>1 + a\<close>; a body whose
  adjustment lies outside \<open>[-1, 1]\<close> is answered with \<open>validation_error\<close> (400) and the store
  is unchanged. The reward so derived is the one a successful approval returns and stores
  in its approval record.
\<close>

theorem reward_derivation:
  "adjustedReward True None = 1 \<and> adjustedReward False None = - 1 \<and>
   (- 1 \<le> a \<and> a \<le> 1 \<longrightarrow> adjustedReward b (Some a) = adjustedReward b None * (1 + a)) \<and>
   (confidence_adjustment body = Some a \<and> (a < - 1 \<or> 1 < a) \<longrightarrow>
      createApprovalHandler e body s = (validation_error, s) \<and> status validation_error = 400) \<and>
   (fst (createApprovalHandler e body s) = Approval_201 resp \<longrightarrow>
      r_reward resp = adjustedReward (approved body) (confidence_adjustment body) \<and>
      approvals (snd (createApprovalHandler e body s)) = approvals s @ [approval_record e body] \<and>
      a_reward (approval_record e body) = r_reward resp)"
proof (intro conjI impI)
  show "adjustedReward True None = 1" by (simp add: adjustedReward_def)
  show "adjustedReward False None = - 1" by (simp add: adjustedReward_def)
  show "adjustedReward b (Some a) = adjustedReward b None * (1 + a)"
    by (simp add: adjustedReward_def)
next
  assume "confidence_adjustment body = Some a \<and> (a < - 1 \<or> 1 < a)"
  then have "\<not> createApprovalSchema e body"
    by (auto simp: createApprovalSchema_def)
  then show "createApprovalHandler e body s = (validation_error, s)"
    by (simp add: createApprovalHandler_def)
  show "status validation_error = 400" by simp
next
  assume ok: "fst (createApprovalHandler e body s) = Approval_201 resp"
  then show r: "r_reward resp = adjustedReward (approved body) (confidence_adjustment body)"
    using approval_201_only_if by fastforce
  obtain d where "find (\<lambda>d. d_id d = pg_uuid (decision_id body)) (decisions s) = Some d"
    using approval_201_only_if[OF ok] by auto
  then show "approvals (snd (createApprovalHandler e body s)) = approvals s @ [approval_record e body]"
    using approval_201_state[OF ok] by simp
  show "a_reward (approval_record e body) = r_reward resp"
    using r by (simp add: approval_record_def)
qed

subsection \<open>Concrete runs of the approval handler\<close>

lemma timestamptz_example: "timestamptz example_env ''2023'' = 2023" "timestamptz example_env ''2024'' = 2024"
  by (simp_all add: example_env_def parseInt_def is_space_def digit_value_def Let_def)

lemma pg_uuid_example: "pg_uuid example_id = example_id"
  by (simp add: pg_uuid_def example_id_def toLowerCase_def)

lemma example_decision_fields:
  "id' (example_decision i r c) = i"
  "objective (example_decision i r c) = ''reduce cloud spend''"
  "command (example_decision i r c) = ''agentics simulate''"
  "raw_output_hash (example_decision i r c) = replicate 64 CHR ''a''"
  "recommendation (example_decision i r c) = r"
  "confidence (example_decision i r c) = ''HIGH''"
  "signals (example_decision i r c) = \<lparr>financial = ''ok'', risk = ''low'', complexity = ''low''\<rparr>"
  "embedding_text (example_decision i r c) = ''reduce cloud spend''"
  "graph_relations (example_decision i r c) =
     \<lparr>objective_to_repos = [], repos_to_signals = [], signals_to_recommendation = []\<rparr>"
  "created_at (example_decision i r c) = Some c"
  by (simp_all add: example_decision_def)

lemma example_decision_schema:
  "r \<noteq> [] \<Longrightarrow> createDecisionSchema example_env (example_decision example_id r c)"
  by (cases r) (simp_all add: createDecisionSchema_def example_env_def example_decision_fields example_id_def)

lemma state_with_decision_eq:
  "state_with_decision = \<lparr>decisions = [example_row], approvals = [], learning_weights = []\<rparr>"
proof -
  have "createDecisionSchema example_env (example_decision example_id ''PROCEED: ship it'' ''2023'')"
    by (simp add: example_decision_schema)
  moreover have "\<not> throws example_env 0"
    by (simp add: example_env_def)
  ultimately show ?thesis
    by (simp add: state_with_decision_def createDecisionHandler_def query_def upsert_decision_def
        empty_db_def example_row_def pg_uuid_example timestamptz_example Let_def
        example_decision_fields)
qed

lemma example_schema:
  "createApprovalSchema example_env (example_approval example_id a None)"
  "createApprovalSchema failing_env (example_approval example_id a None)"
  by (simp_all add: createApprovalSchema_def example_env_def failing_env_def example_approval_def
        example_id_def)

lemma example_find:
  "find (\<lambda>d. d_id d = pg_uuid (decision_id (example_approval example_id a c)))
     (decisions state_with_decision) = Some example_row"
  by (simp add: example_approval_def pg_uuid_example state_with_decision_eq example_row_def)

lemma example_throws:
  "throws example_env k = False" "throws failing_env k = (k = 6)"
  by (simp_all add: example_env_def failing_env_def)

lemma example_201:
  "fst (createApprovalHandler example_env (example_approval example_id True None) state_with_decision) =
     Approval_201 \<lparr>r_id = ''00000000-0000-4000-8000-000000000001'', r_decision_id = example_id,
        r_reward = 1, weights_updated = 6, learning_applied = True\<rparr>"
  by (simp add: createApprovalHandler_cases example_schema example_find example_throws Let_def)
     (simp add: example_env_def example_approval_def adjustedReward_def)

text \<open>
  C10, witness: the approval of the example decision is answered 201 with
  \<open>weights_updated = 6\<close>.
\<close>

theorem approval_weights_updated_witness:
  "status (fst (createApprovalHandler example_env (example_approval example_id True None)
                  state_with_decision)) = 201 \<and>
   (\<exists>resp. fst (createApprovalHandler example_env (example_approval example_id True None)
                   state_with_decision) = Approval_201 resp \<and>
           weights_updated resp = 6 \<and> learning_applied resp = True)"
proof -
  have h: "status (fst (createApprovalHandler example_env (example_approval example_id True None)
                  state_with_decision)) = 201"
    by (simp add: example_201)
  show ?thesis
    using h approval_weights_updated [OF h] by blast
qed

text \<open>
  C2, witness: the approval of the example decision succeeds; afterwards the edge from
  the signal \<open>risk:low\<close> to PROCEED has weight 1 and count 1, and there is no edge from that
  signal to DEFER.
\<close>

theorem approval_edge_set_witness:
  "fst (createApprovalHandler example_env (example_approval example_id True None) state_with_decision) =
     Approval_201 \<lparr>r_id = ''00000000-0000-4000-8000-000000000001'', r_decision_id = example_id,
        r_reward = 1, weights_updated = 6, learning_applied = True\<rparr> \<and>
   find (\<lambda>d. d_id d = pg_uuid (decision_id (example_approval example_id True None)))
     (decisions state_with_decision) = Some example_row \<and>
   map_option (\<lambda>w. (weight w, update_count w))
     (lw_lookup (learning_weights (snd (createApprovalHandler example_env
         (example_approval example_id True None) state_with_decision)))
        (Signal, ''risk:low'', ''recommendation'', ''PROCEED'')) = Some (1, 1) \<and>
   lw_lookup (learning_weights (snd (createApprovalHandler example_env
         (example_approval example_id True None) state_with_decision)))
        (Signal, ''risk:low'', ''recommendation'', ''DEFER'') = None"
  using approval_edge_set [OF example_201 example_find] example_201 example_find
  by (simp add: Let_def example_row_def extractRecommendationType_def regex_match_def
        recommendation_words_def toUpperCase_def state_with_decision_eq lw_lookup_def
        example_approval_def)

text \<open>
  C6, witness: the store fails on the upsert of the objective edge (query 6); the answer is
  \<open>internal_error\<close>, one approval row and the four weight rows written before are kept.
\<close>

theorem approval_edge_failure_witness:
  "createApprovalSchema failing_env (example_approval example_id True None) \<and>
   \<not> throws failing_env 0 \<and> \<not> throws failing_env 1 \<and>
   find (\<lambda>d. d_id d = pg_uuid (decision_id (example_approval example_id True None)))
     (decisions state_with_decision) = Some example_row \<and>
   (2::nat) \<le> 6 \<and> (6::nat) \<le> 7 \<and> throws failing_env 6 \<and>
   \<not> throws failing_env 2 \<and> \<not> throws failing_env 3 \<and>
   \<not> throws failing_env 4 \<and> \<not> throws failing_env 5 \<and>
   fst (createApprovalHandler failing_env (example_approval example_id True None)
          state_with_decision) = internal_error \<and>
   length (approvals (snd (createApprovalHandler failing_env
          (example_approval example_id True None) state_with_decision))) = 1 \<and>
   length (learning_weights (snd (createApprovalHandler failing_env
          (example_approval example_id True None) state_with_decision))) = 4"
proof -
  have h: "\<forall>j. 2 \<le> j \<and> j < 6 \<longrightarrow> \<not> throws failing_env j"
    by (simp add: example_throws)
  have t: "\<not> throws failing_env 0" "\<not> throws failing_env 1" "throws failing_env 6"
    by (simp_all add: example_throws)
  have b: "(2::nat) \<le> 6" "(6::nat) \<le> 7"
    by simp_all
  show ?thesis
    using approval_edge_failure [OF example_schema(2) t(1,2) example_find b t(3) h,
        where a2 = True] h t example_schema(2) [of True] example_find [of True None]
    by (simp add: state_with_decision_eq approval_calls_def applyRewards_def lw_upsert_def
          lw_lookup_def lw_key_def Let_def)
qed

text \<open>
  C6, counterexample to the claim as stated. Four edge updates succeed and the fifth fails:
  the approval record and the four weight rows are in the store, and the response is 500
  \<open>internal_error\<close>, not a completed submission reporting \<open>weights_updated = 4\<close>.
\<close>

theorem approval_edge_failure_counterexample:
  "fst (createApprovalHandler failing_env (example_approval example_id True None)
          state_with_decision) = internal_error \<and>
   status (fst (createApprovalHandler failing_env (example_approval example_id True None)
          state_with_decision)) = 500 \<and>
   map a_decision_id (approvals (snd (createApprovalHandler failing_env
          (example_approval example_id True None) state_with_decision))) = [example_id] \<and>
   map source_id (learning_weights (snd (createApprovalHandler failing_env
          (example_approval example_id True None) state_with_decision))) =
     [example_id, ''risk:low'', ''financial:ok'', ''complexity:low''] \<and>
   map weight (learning_weights (snd (createApprovalHandler failing_env
          (example_approval example_id True None) state_with_decision))) = [1, 1, 1, 1]"
  by (simp add: createApprovalHandler_cases example_schema example_find example_throws Let_def
        approval_calls_def applyRewards_def lw_upsert_def lw_lookup_def lw_key_def
        approval_record_def state_with_decision_eq)
     (simp add: example_approval_def example_row_def adjustedReward_def pg_uuid_example)

text \<open>
  C7, witness: an approval sent to the empty store is answered \<open>not_found\<close> and the store
  stays empty.
\<close>

theorem approval_not_found_witness:
  "find (\<lambda>d. d_id d = pg_uuid (decision_id (example_approval example_id True None)))
     (decisions empty_db) = None \<and>
   createApprovalSchema example_env (example_approval example_id True None) \<and>
   \<not> throws example_env 0 \<and>
   createApprovalHandler example_env (example_approval example_id True None) empty_db =
     (not_found, empty_db)"
proof -
  have h: "find (\<lambda>d. d_id d = pg_uuid (decision_id (example_approval example_id True None)))
     (decisions empty_db) = None"
    by (simp add: empty_db_def)
  show ?thesis
    using approval_not_found [OF h, of example_env] h example_schema(1) [of True]
    by (simp add: example_throws prod_eq_iff)
qed

text \<open>
  C4, witness: a rejection adjusted by 1/2 has reward -3/2; an adjustment of 2 is answered
  \<open>validation_error\<close> with the store unchanged; the plain approval of the example decision
  returns and stores the reward 1.
\<close>

theorem reward_derivation_witness:
  "- 1 \<le> (1 / 2 :: real) \<and> (1 / 2 :: real) \<le> 1 \<and>
   adjustedReward False (Some (1 / 2)) = - (3 / 2) \<and>
   confidence_adjustment (example_approval example_id True (Some 2)) = Some 2 \<and>
   ((2::real) < - 1 \<or> (1::real) < 2) \<and>
   createApprovalHandler example_env (example_approval example_id True (Some 2))
     state_with_decision = (validation_error, state_with_decision) \<and>
   fst (createApprovalHandler example_env (example_approval example_id True None)
          state_with_decision) =
     Approval_201 \<lparr>r_id = ''00000000-0000-4000-8000-000000000001'', r_decision_id = example_id,
        r_reward = 1, weights_updated = 6, learning_applied = True\<rparr> \<and>
   map a_reward (approvals (snd (createApprovalHandler example_env
          (example_approval example_id True None) state_with_decision))) = [1]"
  using reward_derivation [where a = "1 / 2" and b = False
      and body = "example_approval example_id True (Some 1)" and e = example_env
      and s = state_with_decision]
    reward_derivation [where a = 2 and b = True
      and body = "example_approval example_id True (Some 2)" and e = example_env
      and s = state_with_decision]
    reward_derivation [where a = 0 and b = True
      and body = "example_approval example_id True None" and e = example_env
      and s = state_with_decision
      and resp = "\<lparr>r_id = ''00000000-0000-4000-8000-000000000001'', r_decision_id = example_id,
        r_reward = 1, weights_updated = 6, learning_applied = True\<rparr>"]
    example_201
  by (simp add: example_approval_def state_with_decision_eq adjustedReward_def)

section \<open>The ranking query\<close>

lemma precedes_total: "\<not> precedes x y \<Longrightarrow> precedes y x"
  by (auto simp: precedes_def)

lemma precedes_trans: "precedes x y \<Longrightarrow> precedes y z \<Longrightarrow> precedes x z"
  by (auto simp: precedes_def)

lemma mset_insert_row: "mset (insert_row x ys) = add_mset x (mset ys)"
  by (induction ys) auto

lemma mset_order_by: "mset (order_by rows) = mset rows"
  by (induction rows) (auto simp: order_by_def mset_insert_row)

lemma set_insert_row: "set (insert_row x ys) = insert x (set ys)"
  using mset_insert_row[of x ys] by (metis set_mset_add_mset_insert set_mset_mset)

lemma sorted_insert_row:
  "sorted_wrt precedes ys \<Longrightarrow> sorted_wrt precedes (insert_row x ys)"
proof (induction ys)
  case Nil
  then show ?case by simp
next
  case (Cons y ys)
  show ?case
  proof (cases "precedes x y")
    case True
    then have "\<forall>z\<in>set ys. precedes x z"
      using Cons.prems precedes_trans by auto
    then show ?thesis using True Cons.prems by simp
  next
    case False
    then have "precedes y x" by (rule precedes_total)
    then show ?thesis using False Cons by (auto simp: set_insert_row)
  qed
qed

lemma sorted_order_by: "sorted_wrt precedes (order_by rows)"
  by (induction rows) (auto simp: order_by_def sorted_insert_row)

lemma listDecisionsHandler_cases:
  "listDecisionsHandler e q s =
     (if throws e 0 \<or> throws e 1 then (internal_error, s)
      else (Decisions_200
              \<lparr>data = map fst (take (nat (parsedLimit (q_limit q)))
                        (drop (nat (parsedOffset (q_offset q)))
                           (order_by (left_join (filter (where_clause e (q_objective q)) (decisions s))
                                        (learning_weights s))))),
               total = int (length (filter (where_clause e (q_objective q)) (decisions s))),
               limit = parsedLimit (q_limit q), offset = parsedOffset (q_offset q)\<rparr>, s))"
  by (simp add: listDecisionsHandler_def await_def query_def return_def count_decisions_def
        select_decisions_def)

lemma left_join_cases:
  assumes "(d, w) \<in> set (left_join ds t)"
  shows "d \<in> set ds \<and>
         ((filter (\<lambda>lw. source_type lw = Decision \<and> source_id lw = d_id d \<and>
                         target_type lw = ''recommendation'') t = [] \<and> w = 0) \<or>
          (\<exists>lw\<in>set t. source_type lw = Decision \<and> source_id lw = d_id d \<and>
                        target_type lw = ''recommendation'' \<and> w = weight lw))"
proof -
  from assms obtain d' where d': "d' \<in> set ds"
    and in_row: "(d, w) \<in> set (case filter (\<lambda>lw. source_type lw = Decision \<and> source_id lw = d_id d' \<and>
                         target_type lw = ''recommendation'') t of
         [] \<Rightarrow> [(d', 0)]
       | lw # rest \<Rightarrow> map (\<lambda>lw. (d', weight lw)) (lw # rest))"
    by (auto simp: left_join_def)
  show ?thesis
  proof (cases "filter (\<lambda>lw. source_type lw = Decision \<and> source_id lw = d_id d' \<and>
                         target_type lw = ''recommendation'') t")
    case Nil
    then show ?thesis using d' in_row by auto
  next
    case (Cons lw rest)
    then have "d = d'" and "\<exists>x\<in>set (lw # rest). w = weight x"
      using in_row by auto
    then obtain x where "x \<in> set (filter (\<lambda>lw. source_type lw = Decision \<and> source_id lw = d_id d \<and>
                         target_type lw = ''recommendation'') t)" and "w = weight x"
      using Cons by auto
    then show ?thesis using d' \<open>d = d'\<close> by auto
  qed
qed

lemma find_distinct_key:
  assumes "distinct (map f xs)" and "x \<in> set xs"
  shows "find (\<lambda>y. f y = f x) xs = Some x"
  using assms by (induction xs) (auto simp: rev_image_eqI)

lemma left_join_edge_weight:
  assumes keys: "distinct (map lw_key t)"
    and typed: "\<forall>lw\<in>set t. \<forall>d\<in>set ds.
        source_type lw = Decision \<and> source_id lw = d_id d \<and> target_type lw = ''recommendation''
          \<longrightarrow> target_value lw = extractRecommendationType (d_recommendation d)"
    and row: "(d, w) \<in> set (left_join ds t)"
  shows "w = edge_weight t d"
proof -
  let ?key = "(Decision, d_id d, ''recommendation'', extractRecommendationType (d_recommendation d))"
  from left_join_cases[OF row] have d: "d \<in> set ds" by simp
  from left_join_cases[OF row] consider
    (none) "filter (\<lambda>lw. source_type lw = Decision \<and> source_id lw = d_id d \<and>
                         target_type lw = ''recommendation'') t = []" "w = 0"
    | (some) lw where "lw \<in> set t" "source_type lw = Decision" "source_id lw = d_id d"
        "target_type lw = ''recommendation''" "w = weight lw"
    by blast
  then show ?thesis
  proof cases
    case none
    have "lw_lookup t ?key = None"
    proof (rule ccontr)
      assume "lw_lookup t ?key \<noteq> None"
      then obtain x where "lw_lookup t ?key = Some x" by auto
      then have "x \<in> set t" and "lw_key x = ?key"
        by (auto simp: lw_lookup_def find_Some_iff)
      then have "x \<in> set (filter (\<lambda>lw. source_type lw = Decision \<and> source_id lw = d_id d \<and>
                         target_type lw = ''recommendation'') t)"
        by (simp add: lw_key_def)
      then show False using none(1) by simp
    qed
    then show ?thesis using none(2) by (simp add: edge_weight_def)
  next
    case some
    then have "target_value lw = extractRecommendationType (d_recommendation d)"
      using typed d by blast
    then have "lw_key lw = ?key"
      using some by (simp add: lw_key_def)
    then have "lw_lookup t ?key = Some lw"
      using find_distinct_key[OF keys some(1)] by (simp add: lw_lookup_def)
    then show ?thesis using some(5) by (simp add: edge_weight_def)
  qed
qed

text \<open>
  C3, as the code has it. The rows a successful \<open>listDecisionsHandler\<close> returns are a page
  (offset, then limit) of the left join of the filtered decisions with the weight rows
  whose source is (decision, id of the decision) and whose target type is recommendation,
  whatever their target value, one row per matching weight row and one row of weight 0 for
  a decision without any; the join is ordered by that weight, descending, then by creation
  time, descending. When keys are unique in the ledger and every weight row from
  (decision, id) targets the recommendation type extracted from that decision, this is the
  order by the weight of the edge from (decision, id) to the extracted type (0 when there is
  none), then by creation time; a decision of greater edge weight then comes before one of
  smaller edge weight, whatever their creation times.
\<close>

theorem listDecisions_order:
  assumes "fst (listDecisionsHandler e q s) = Decisions_200 resp"
  shows "(\<exists>rows. data resp = map fst (take (nat (limit resp)) (drop (nat (offset resp)) rows)) \<and>
                  mset rows = mset (left_join (filter (where_clause e (q_objective q)) (decisions s))
                                      (learning_weights s)) \<and>
                  sorted_wrt precedes rows) \<and>
         (distinct (map lw_key (learning_weights s)) \<and>
          (\<forall>lw\<in>set (learning_weights s). \<forall>d\<in>set (decisions s).
              source_type lw = Decision \<and> source_id lw = d_id d \<and>
              target_type lw = ''recommendation''
                \<longrightarrow> target_value lw = extractRecommendationType (d_recommendation d))
          \<longrightarrow> sorted_wrt (spec_precedes (learning_weights s)) (data resp) \<and>
              (\<forall>i j. i < length (data resp) \<and> j < length (data resp) \<and>
                     edge_weight (learning_weights s) (data resp ! i) >
                       edge_weight (learning_weights s) (data resp ! j) \<longrightarrow> i < j))"
proof -
  let ?ds = "filter (where_clause e (q_objective q)) (decisions s)"
  let ?t = "learning_weights s"
  let ?rows = "order_by (left_join ?ds ?t)"
  let ?page = "take (nat (limit resp)) (drop (nat (offset resp)) ?rows)"
  have resp: "data resp = map fst ?page"
    using assms by (auto simp: listDecisionsHandler_cases split: if_splits)
  have A: "\<exists>rows. data resp = map fst (take (nat (limit resp)) (drop (nat (offset resp)) rows)) \<and>
                  mset rows = mset (left_join ?ds ?t) \<and> sorted_wrt precedes rows"
    using resp mset_order_by sorted_order_by by blast
  have B: "sorted_wrt (spec_precedes ?t) (data resp) \<and>
              (\<forall>i j. i < length (data resp) \<and> j < length (data resp) \<and>
                     edge_weight ?t (data resp ! i) > edge_weight ?t (data resp ! j) \<longrightarrow> i < j)"
    if keys: "distinct (map lw_key ?t)"
      and typed: "\<forall>lw\<in>set ?t. \<forall>d\<in>set (decisions s).
              source_type lw = Decision \<and> source_id lw = d_id d \<and>
              target_type lw = ''recommendation''
                \<longrightarrow> target_value lw = extractRecommendationType (d_recommendation d)"
  proof -
    have typed': "\<forall>lw\<in>set ?t. \<forall>d\<in>set ?ds.
              source_type lw = Decision \<and> source_id lw = d_id d \<and>
              target_type lw = ''recommendation''
                \<longrightarrow> target_value lw = extractRecommendationType (d_recommendation d)"
      using typed by auto
    have w: "snd x = edge_weight ?t (fst x)" if "x \<in> set ?page" for x
    proof -
      from that have "x \<in> set ?rows"
        by (meson in_set_dropD in_set_takeD)
      then have "x \<in> set (left_join ?ds ?t)"
        using mset_order_by[of "left_join ?ds ?t"] by (metis set_mset_mset)
      then show ?thesis
        using left_join_edge_weight[OF keys typed', of "fst x" "snd x"] by simp
    qed
    have "sorted_wrt precedes ?page"
      using sorted_order_by sorted_wrt_drop sorted_wrt_take by blast
    then have "sorted_wrt (\<lambda>x y. spec_precedes ?t (fst x) (fst y)) ?page"
    proof (rule sorted_wrt_mono_rel[rotated])
      fix x y assume "x \<in> set ?page" "y \<in> set ?page" "precedes x y"
      then show "spec_precedes ?t (fst x) (fst y)"
        using w by (simp add: precedes_def spec_precedes_def)
    qed
    then have sorted: "sorted_wrt (spec_precedes ?t) (data resp)"
      by (simp add: resp sorted_wrt_map)
    have "i < j" if "i < length (data resp)" "j < length (data resp)"
      "edge_weight ?t (data resp ! i) > edge_weight ?t (data resp ! j)" for i j
    proof (rule ccontr)
      assume "\<not> i < j"
      then have "j < i \<or> j = i" by arith
      then show False
      proof
        assume "j < i"
        then have "spec_precedes ?t (data resp ! j) (data resp ! i)"
          using sorted that(1) by (simp add: sorted_wrt_iff_nth_less)
        then show False using that(3) by (auto simp: spec_precedes_def)
      next
        assume "j = i"
        then show False using that(3) by simp
      qed
    qed
    then show ?thesis using sorted by blast
  qed
  show ?thesis using A B by blast
qed

lemma parsedLimit_range: "1 \<le> parsedLimit l \<and> parsedLimit l \<le> 1000"
  by (simp add: parsedLimit_def Let_def min_def max_def)

lemma parsedOffset_range: "0 \<le> parsedOffset f"
  by (simp add: parsedOffset_def Let_def max_def)

text \<open>
  C9. The limit of a listing lies in 1..1000 and its offset is at least 0, whatever the
  query parameters are; a successful listing reports this limit and offset, returns at
  most limit rows, and reports as total the number of decisions that satisfy the WHERE
  clause of the query, the same number for every other choice of limit and offset. When
  neither query throws the listing succeeds.
\<close>

theorem listDecisions_pagination:
  "1 \<le> parsedLimit l \<and> parsedLimit l \<le> 1000 \<and> 0 \<le> parsedOffset f \<and>
   (fst (listDecisionsHandler e q s) = Decisions_200 resp \<longrightarrow>
      limit resp = parsedLimit (q_limit q) \<and> offset resp = parsedOffset (q_offset q) \<and>
      length (data resp) \<le> nat (limit resp) \<and>
      total resp = int (length (filter (where_clause e (q_objective q)) (decisions s))) \<and>
      (\<forall>l' f' resp'.
          fst (listDecisionsHandler e (q\<lparr>q_limit := l', q_offset := f'\<rparr>) s) = Decisions_200 resp'
            \<longrightarrow> total resp' = total resp)) \<and>
   (\<not> throws e 0 \<and> \<not> throws e 1 \<longrightarrow>
      (\<exists>resp. listDecisionsHandler e q s = (Decisions_200 resp, s)))"
proof (intro conjI impI allI)
  show "1 \<le> parsedLimit l" "parsedLimit l \<le> 1000" "0 \<le> parsedOffset f"
    using parsedLimit_range parsedOffset_range by simp_all
next
  assume ok: "fst (listDecisionsHandler e q s) = Decisions_200 resp"
  then show "limit resp = parsedLimit (q_limit q)" "offset resp = parsedOffset (q_offset q)"
    "total resp = int (length (filter (where_clause e (q_objective q)) (decisions s)))"
    by (auto simp: listDecisionsHandler_cases split: if_splits)
  from ok show "length (data resp) \<le> nat (limit resp)"
    by (auto simp: listDecisionsHandler_cases split: if_splits)
  fix l' f' resp'
  assume "fst (listDecisionsHandler e (q\<lparr>q_limit := l', q_offset := f'\<rparr>) s) = Decisions_200 resp'"
  then show "total resp' = total resp"
    using ok by (auto simp: listDecisionsHandler_cases split: if_splits)
next
  assume "\<not> throws e 0 \<and> \<not> throws e 1"
  then show "\<exists>resp. listDecisionsHandler e q s = (Decisions_200 resp, s)"
    by (simp add: listDecisionsHandler_cases)
qed

section \<open>Decision records\<close>

lemma approval_keeps_decisions:
  "decisions (snd (createApprovalHandler e body s)) = decisions s"
  by (simp add: createApprovalHandler_cases Let_def split: option.splits)

lemma get_keeps_decisions:
  "decisions (snd (getDecisionHandler e i s)) = decisions s"
  by (simp add: getDecisionHandler_def query_def select_decision_def split: list.splits)

lemma list_keeps_decisions:
  "decisions (snd (listDecisionsHandler e q s)) = decisions s"
  by (simp add: listDecisionsHandler_cases)

lemma upsert_decision_nth:
  assumes "i < length (decisions s)"
  shows "d_id (decisions (snd (upsert_decision row s)) ! i) = d_id (decisions s ! i) \<and>
         d_created_at (decisions (snd (upsert_decision row s)) ! i) = d_created_at (decisions s ! i) \<and>
         d_embedding (decisions (snd (upsert_decision row s)) ! i) = d_embedding (decisions s ! i) \<and>
         (d_id row \<noteq> d_id (decisions s ! i) \<longrightarrow>
            decisions (snd (upsert_decision row s)) ! i = decisions s ! i)"
  using assms
  by (cases "find (\<lambda>d. d_id d = d_id row) (decisions s)")
     (auto simp: upsert_decision_def nth_append)

lemma upsert_decision_same:
  assumes "i < length (decisions s)" and "d_id row = d_id (decisions s ! i)"
  shows "decisions (snd (upsert_decision row s)) ! i =
           (decisions s ! i)\<lparr>d_objective := d_objective row, d_command := d_command row,
              d_raw_output_hash := d_raw_output_hash row,
              d_recommendation := d_recommendation row, d_confidence := d_confidence row,
              d_signals := d_signals row, d_embedding_text := d_embedding_text row,
              d_graph_relations := d_graph_relations row\<rparr>"
proof (cases "find (\<lambda>d. d_id d = d_id row) (decisions s)")
  case None
  then have "d_id (decisions s ! i) \<noteq> d_id row"
    using assms(1) by (auto simp: find_None_iff)
  then show ?thesis using assms(2) by simp
next
  case (Some d)
  then show ?thesis using assms by (simp add: upsert_decision_def)
qed

lemma upsert_decision_length:
  "length (decisions s) \<le> length (decisions (snd (upsert_decision row s)))"
  by (cases "find (\<lambda>d. d_id d = d_id row) (decisions s)") (auto simp: upsert_decision_def)

text \<open>
  C8, as the code has it. No request removes a stored decision, and no request changes a
  stored decision's id, creation time or embedding. A stored decision stays as it is under
  every request except a \<^verbatim>\<open>POST /v1/decisions\<close> that carries its id: that request replaces the
  other fields (objective, command, raw output hash, recommendation, confidence, signals,
  embedding text, graph relations) by those of the request.
\<close>

theorem decision_fields_kept:
  "length (decisions s) \<le> length (decisions (snd (handle e req s))) \<and>
   (\<forall>i<length (decisions s).
      d_id (decisions (snd (handle e req s)) ! i) = d_id (decisions s ! i) \<and>
      d_created_at (decisions (snd (handle e req s)) ! i) = d_created_at (decisions s ! i) \<and>
      d_embedding (decisions (snd (handle e req s)) ! i) = d_embedding (decisions s ! i) \<and>
      ((\<forall>body. req = POST_decisions body \<longrightarrow> pg_uuid (id' body) \<noteq> d_id (decisions s ! i)) \<longrightarrow>
         decisions (snd (handle e req s)) ! i = decisions s ! i) \<and>
      (\<forall>body. req = POST_decisions body \<and> createDecisionSchema e body \<and> \<not> throws e 0 \<and>
              pg_uuid (id' body) = d_id (decisions s ! i) \<longrightarrow>
         decisions (snd (handle e req s)) ! i =
           (decisions s ! i)\<lparr>d_objective := objective body, d_command := command body,
              d_raw_output_hash := raw_output_hash body,
              d_recommendation := recommendation body, d_confidence := confidence body,
              d_signals := signals body, d_embedding_text := embedding_text body,
              d_graph_relations := graph_relations body\<rparr>))"
proof (cases req)
  case (POST_decisions body)
  show ?thesis
  proof (cases "createDecisionSchema e body \<and> \<not> throws e 0")
    case False
    then have "snd (handle e req s) = s"
      using POST_decisions by (auto simp: createDecisionHandler_def query_def Let_def)
    then show ?thesis using False POST_decisions by auto
  next
    case True
    let ?row = "\<lparr>d_id = pg_uuid (id' body), d_objective = objective body,
        d_command = command body, d_raw_output_hash = raw_output_hash body,
        d_recommendation = recommendation body, d_confidence = confidence body,
        d_signals = signals body, d_embedding_text = embedding_text body, d_embedding = None,
        d_graph_relations = graph_relations body,
        d_created_at = timestamptz e (case created_at body of None \<Rightarrow> now_iso e 0
                                      | Some c \<Rightarrow> if c \<noteq> [] then c else now_iso e 0)\<rparr>"
    have s': "snd (handle e req s) = snd (upsert_decision ?row s)"
      using True POST_decisions
      by (simp add: createDecisionHandler_def query_def Let_def upsert_decision_def)
    have row: "d_id ?row = pg_uuid (id' body)"
      by simp
    show ?thesis
      unfolding s' using upsert_decision_nth[of _ s ?row] upsert_decision_length[of s ?row]
        upsert_decision_same[of _ s ?row] row POST_decisions by auto
  qed
next
  case (GET_decision i)
  then show ?thesis by (simp add: get_keeps_decisions)
next
  case (GET_decisions q)
  then show ?thesis by (simp add: list_keeps_decisions)
next
  case (POST_approval body)
  then show ?thesis by (simp add: approval_keeps_decisions)
qed

section \<open>Concrete runs of the decision handlers\<close>

lemma pg_uuid_other: "pg_uuid other_id = other_id"
  by (simp add: pg_uuid_def other_id_def toLowerCase_def)

lemma ids_differ: "example_id \<noteq> other_id" "other_id \<noteq> example_id"
  by (simp_all add: example_id_def other_id_def)

lemma example_env_simps:
  "uuidv4 example_env k = ''00000000-0000-4000-8000-00000000000'' @ [''0123456789'' ! (k mod 10)]"
  "now_iso example_env k = ''2024''"
  by (simp_all add: example_env_def)

lemma later_env_simps:
  "throws later_env k = False" "is_uuid later_env = is_uuid example_env"
  "now_iso later_env = now_iso example_env" "timestamptz later_env = timestamptz example_env"
  "uuidv4 later_env k = ''00000000-0000-4000-8000-00000000001'' @ [''0123456789'' ! (k mod 10)]"
  by (simp_all add: later_env_def example_env_def)

lemma example_decision_schema_other:
  "r \<noteq> [] \<Longrightarrow> createDecisionSchema example_env (example_decision other_id r c)"
  by (cases r)
     (simp_all add: createDecisionSchema_def example_env_def example_decision_fields other_id_def)

lemma example_schema_adjusted:
  "- 1 \<le> c \<Longrightarrow> c \<le> 1 \<Longrightarrow> createApprovalSchema example_env (example_approval example_id a (Some c))"
  "- 1 \<le> c \<Longrightarrow> c \<le> 1 \<Longrightarrow> createApprovalSchema later_env (example_approval other_id a (Some c))"
  by (simp_all add: createApprovalSchema_def example_env_def later_env_def example_approval_def
        example_id_def other_id_def)

lemma state_approved_eq:
  "state_approved =
     \<lparr>decisions = [example_row],
      approvals = [approval_record example_env (example_approval example_id True (Some (- (1 / 5))))],
      learning_weights =
        applyRewards (approval_calls example_env (example_approval example_id True (Some (- (1 / 5))))
                        example_row) []\<rparr>"
  by (simp add: state_approved_def createApprovalHandler_cases example_schema_adjusted
        example_find example_throws Let_def approval_calls_def)
     (simp add: state_with_decision_eq)

lemma state_redecided_eq:
  "state_redecided = state_approved\<lparr>decisions := [redecided_row]\<rparr>"
proof -
  have "createDecisionSchema example_env (example_decision example_id ''DEFER: wait a quarter'' ''2025'')"
    by (simp add: example_decision_schema)
  then show ?thesis
    by (simp add: state_redecided_def createDecisionHandler_def query_def upsert_decision_def
        example_throws pg_uuid_example timestamptz_example Let_def example_decision_fields
        state_approved_eq redecided_row_def example_row_def)
qed

lemma state_second_eq:
  "state_second = state_approved\<lparr>decisions := [redecided_row, second_row]\<rparr>"
proof -
  have "createDecisionSchema example_env (example_decision other_id ''DEFER: wait a quarter'' ''2024'')"
    by (simp add: example_decision_schema_other)
  then show ?thesis
    by (simp add: state_second_def createDecisionHandler_def query_def upsert_decision_def
        example_throws pg_uuid_other timestamptz_example Let_def example_decision_fields
        state_redecided_eq state_approved_eq redecided_row_def second_row_def example_row_def
        ids_differ)
qed

lemma parseInt_examples: "parseInt ''50'' = Some 50" "parseInt ''0'' = Some 0"
  by (simp_all add: parseInt_def is_space_def digit_value_def Let_def)

lemma parsed_defaults: "parsedLimit None = 50" "parsedOffset None = 0"
  by (simp_all add: parsedLimit_def parsedOffset_def parseInt_examples)

lemma approved_rows:
  "applyRewards (approval_calls example_env (example_approval example_id True (Some (- (1 / 5))))
      example_row) [] = approved_edges"
  by (simp add: approval_calls_def applyRewards_def lw_upsert_def lw_lookup_def lw_key_def Let_def
        example_approval_def example_row_def other_row_def adjustedReward_def
        extractRecommendationType_def regex_match_def recommendation_words_def toUpperCase_def
        example_env_simps later_env_simps timestamptz_example example_id_def other_id_def
        LEARNING_RATE_def approved_edges_def rated_edges_def)

lemma weights_approved:
  "learning_weights state_approved = approved_edges"
  unfolding state_approved_eq db.select_convs by (rule approved_rows)

lemma two_rows:
  "applyRewards (approval_calls later_env (example_approval other_id False (Some (- (4 / 5))))
      other_row)
     approved_edges = rated_edges"
  by (simp add: approval_calls_def applyRewards_def lw_upsert_def lw_lookup_def lw_key_def Let_def
        example_approval_def example_row_def other_row_def adjustedReward_def
        extractRecommendationType_def regex_match_def recommendation_words_def toUpperCase_def
        example_env_simps later_env_simps timestamptz_example example_id_def other_id_def
        LEARNING_RATE_def approved_edges_def rated_edges_def)

lemma state_two_eq:
  "state_two =
     \<lparr>decisions = [example_row, other_row],
      approvals = [approval_record example_env (example_approval example_id True (Some (- (1 / 5)))),
                   approval_record later_env (example_approval other_id False (Some (- (4 / 5))))],
      learning_weights =
        applyRewards (approval_calls later_env (example_approval other_id False (Some (- (4 / 5))))
                        other_row) (learning_weights state_approved)\<rparr>"
proof -
  have "createDecisionSchema example_env (example_decision other_id ''PROCEED: go ahead'' ''2024'')"
    by (simp add: example_decision_schema_other)
  then have mid: "snd (handle example_env
               (POST_decisions (example_decision other_id ''PROCEED: go ahead'' ''2024''))
               state_approved) = state_approved\<lparr>decisions := [example_row, other_row]\<rparr>"
    by (simp add: createDecisionHandler_def query_def upsert_decision_def
        example_throws pg_uuid_other timestamptz_example Let_def example_decision_fields
        state_approved_eq other_row_def example_row_def ids_differ)
  have f: "find (\<lambda>d. d_id d = pg_uuid (decision_id (example_approval other_id False (Some (- (4 / 5))))))
     (decisions (state_approved\<lparr>decisions := [example_row, other_row]\<rparr>)) = Some other_row"
    by (simp add: example_approval_def pg_uuid_other other_row_def example_row_def ids_differ)
  have s: "createApprovalSchema later_env (example_approval other_id False (Some (- (4 / 5))))"
    by (simp add: example_schema_adjusted)
  have t: "\<not> throws later_env 0" "\<not> throws later_env 1"
    by (simp_all add: later_env_simps)
  have n: "length (takeWhile (\<lambda>k. \<not> throws later_env k) [2, 3, 4, 5, 6, 7]) = 6"
    by (simp add: later_env_simps)
  have len: "take 6 (approval_calls later_env (example_approval other_id False (Some (- (4 / 5)))) other_row) =
      approval_calls later_env (example_approval other_id False (Some (- (4 / 5)))) other_row"
    by (simp add: approval_calls_def Let_def)
  have "state_two = snd (createApprovalHandler later_env
      (example_approval other_id False (Some (- (4 / 5))))
      (state_approved\<lparr>decisions := [example_row, other_row]\<rparr>))"
    using mid by (simp add: state_two_def)
  also have "\<dots> = state_approved\<lparr>decisions := [example_row, other_row],
      approvals := approvals state_approved @
         [approval_record later_env (example_approval other_id False (Some (- (4 / 5))))],
      learning_weights :=
        applyRewards (approval_calls later_env (example_approval other_id False (Some (- (4 / 5))))
                        other_row) (learning_weights state_approved)\<rparr>"
    unfolding approval_run[OF s t f] Let_def n len by simp
  finally show ?thesis
    by (simp add: state_approved_eq)
qed

lemma weights_two:
  "learning_weights state_two = rated_edges"
  unfolding state_two_eq db.select_convs weights_approved by (rule two_rows)

lemma list_all_second:
  "fst (listDecisionsHandler example_env list_all_query state_second) =
     Decisions_200 \<lparr>data = [redecided_row, second_row], total = 2, limit = 50, offset = 0\<rparr>"
  by (simp add: listDecisionsHandler_cases example_throws list_all_query_def parsed_defaults
        where_clause_def state_second_eq weights_approved approved_edges_def left_join_def order_by_def precedes_def
        redecided_row_def second_row_def example_row_def example_id_def other_id_def)

lemma list_all_two:
  "fst (listDecisionsHandler example_env list_all_query state_two) =
     Decisions_200 \<lparr>data = [example_row, other_row], total = 2, limit = 50, offset = 0\<rparr>"
  by (simp add: listDecisionsHandler_cases example_throws list_all_query_def parsed_defaults
        where_clause_def weights_two rated_edges_def left_join_def order_by_def precedes_def)
     (simp add: state_two_eq other_row_def example_row_def example_id_def other_id_def
        precedes_def)

text \<open>
  C3, counterexample to the claim as stated. A decision recommending to proceed is approved
  (reward 0.8) and then posted again under its id, now recommending to defer; a second,
  later decision recommending to defer has no approval. Neither has an edge to DEFER, so
  the order the claim describes puts the later decision first; the listing puts the first
  decision first, by the weight 0.8 of its edge to PROCEED.
\<close>

theorem listDecisions_order_counterexample:
  "fst (listDecisionsHandler example_env list_all_query state_second) =
     Decisions_200 \<lparr>data = [redecided_row, second_row], total = 2, limit = 50, offset = 0\<rparr> \<and>
   edge_weight (learning_weights state_second) redecided_row = 0 \<and>
   edge_weight (learning_weights state_second) second_row = 0 \<and>
   d_created_at redecided_row < d_created_at second_row \<and>
   \<not> sorted_wrt (spec_precedes (learning_weights state_second)) [redecided_row, second_row]"
proof -
  have w: "edge_weight (learning_weights state_second) redecided_row = 0"
    "edge_weight (learning_weights state_second) second_row = 0"
    by (simp_all add: edge_weight_def state_second_eq weights_approved approved_edges_def lw_lookup_def lw_key_def
          redecided_row_def second_row_def example_row_def extractRecommendationType_def
          regex_match_def recommendation_words_def toUpperCase_def example_id_def other_id_def)
  have c: "d_created_at redecided_row < d_created_at second_row"
    by (simp add: redecided_row_def second_row_def example_row_def)
  show ?thesis
    using w c list_all_second by (simp add: spec_precedes_def)
qed

text \<open>
  C3, witness: the first decision has edge weight 0.8, the second, later one -0.2; both
  recommend to proceed, keys are unique and each decision edge targets the type of its
  decision; the listing returns the first decision before the second.
\<close>

theorem listDecisions_order_witness:
  "fst (listDecisionsHandler example_env list_all_query state_two) =
     Decisions_200 \<lparr>data = [example_row, other_row], total = 2, limit = 50, offset = 0\<rparr> \<and>
   distinct (map lw_key (learning_weights state_two)) \<and>
   edge_weight (learning_weights state_two) example_row = 4 / 5 \<and>
   edge_weight (learning_weights state_two) other_row = - (1 / 5) \<and>
   d_created_at example_row < d_created_at other_row \<and>
   sorted_wrt (spec_precedes (learning_weights state_two)) [example_row, other_row]"
proof -
  have keys: "distinct (map lw_key (learning_weights state_two))"
    by (simp add: weights_two rated_edges_def lw_key_def)
  have typed: "\<forall>lw\<in>set (learning_weights state_two). \<forall>d\<in>set (decisions state_two).
      source_type lw = Decision \<and> source_id lw = d_id d \<and> target_type lw = ''recommendation''
        \<longrightarrow> target_value lw = extractRecommendationType (d_recommendation d)"
    unfolding weights_two rated_edges_def
    by (simp add: state_two_eq other_row_def example_row_def example_id_def other_id_def
          extractRecommendationType_def regex_match_def recommendation_words_def toUpperCase_def)
  have w: "edge_weight (learning_weights state_two) example_row = 4 / 5"
    "edge_weight (learning_weights state_two) other_row = - (1 / 5)"
    unfolding weights_two rated_edges_def
    by (simp_all add: edge_weight_def lw_lookup_def lw_key_def
          other_row_def example_row_def extractRecommendationType_def
          regex_match_def recommendation_words_def toUpperCase_def example_id_def other_id_def)
  have c: "d_created_at example_row < d_created_at other_row"
    by (simp add: other_row_def example_row_def)
  have "sorted_wrt (spec_precedes (learning_weights state_two))
          (data \<lparr>data = [example_row, other_row], total = 2, limit = 50, offset = 0\<rparr>)"
    using listDecisions_order [OF list_all_two] keys typed by blast
  then show ?thesis
    using list_all_two keys w c by simp
qed


text \<open>
  C9, witness: a limit of 5000 is clamped to 1000 and an offset of -3 to 0; with limit 1
  and offset 1 one row is returned and the total is still 2.
\<close>

theorem listDecisions_pagination_witness:
  "fst (listDecisionsHandler example_env
          \<lparr>q_objective = None, q_limit = Some ''5000'', q_offset = Some ''-3''\<rparr> state_two) =
     Decisions_200 \<lparr>data = [example_row, other_row], total = 2, limit = 1000, offset = 0\<rparr> \<and>
   fst (listDecisionsHandler example_env
          \<lparr>q_objective = None, q_limit = Some ''1'', q_offset = Some ''1''\<rparr> state_two) =
     Decisions_200 \<lparr>data = [other_row], total = 2, limit = 1, offset = 1\<rparr> \<and>
   \<not> throws example_env 0 \<and> \<not> throws example_env 1"
proof -
  have p: "parseInt ''5000'' = Some 5000" "parseInt ''-3'' = Some (- 3)" "parseInt ''1'' = Some 1"
    by (simp_all add: parseInt_def is_space_def digit_value_def Let_def)
  have pl: "parsedLimit (Some ''5000'') = 1000" "parsedOffset (Some ''-3'') = 0"
    "parsedLimit (Some ''1'') = 1" "parsedOffset (Some ''1'') = 1"
    by (simp_all add: parsedLimit_def parsedOffset_def p)
  have a: "fst (listDecisionsHandler example_env
          \<lparr>q_objective = None, q_limit = Some ''5000'', q_offset = Some ''-3''\<rparr> state_two) =
     Decisions_200 \<lparr>data = [example_row, other_row], total = 2, limit = 1000, offset = 0\<rparr>"
    by (simp add: listDecisionsHandler_cases example_throws pl
        where_clause_def weights_two rated_edges_def left_join_def order_by_def precedes_def)
       (simp add: state_two_eq other_row_def example_row_def example_id_def other_id_def
        precedes_def)
  have b: "fst (listDecisionsHandler example_env
          \<lparr>q_objective = None, q_limit = Some ''1'', q_offset = Some ''1''\<rparr> state_two) =
     Decisions_200 \<lparr>data = [other_row], total = 2, limit = 1, offset = 1\<rparr>"
    by (simp add: listDecisionsHandler_cases example_throws pl
        where_clause_def weights_two rated_edges_def left_join_def order_by_def precedes_def)
       (simp add: state_two_eq other_row_def example_row_def example_id_def other_id_def
        precedes_def)
  show ?thesis
    using listDecisions_pagination [where l = "Some ''5000''" and f = "Some ''-3''"
        and e = example_env and s = state_two
        and q = "\<lparr>q_objective = None, q_limit = Some ''5000'', q_offset = Some ''-3''\<rparr>"
        and resp = "\<lparr>data = [example_row, other_row], total = 2, limit = 1000, offset = 0\<rparr>"]
      a b
    by (simp add: example_throws)
qed

text \<open>
  C8, witness: posting the example decision again with another creation time leaves the
  stored creation time 2023; an approval leaves the stored decision as it is.
\<close>

theorem decision_fields_kept_witness:
  "(0::nat) < length (decisions state_with_decision) \<and>
   decisions state_with_decision ! 0 = example_row \<and>
   d_created_at (decisions (snd (handle example_env
       (POST_decisions (example_decision example_id ''DEFER: wait a quarter'' ''2025''))
       state_with_decision)) ! 0) = 2023 \<and>
   decisions (snd (handle example_env (POST_approval (example_approval example_id True None))
       state_with_decision)) ! 0 = example_row"
  using decision_fields_kept [where s = state_with_decision and e = example_env
      and req = "POST_decisions (example_decision example_id ''DEFER: wait a quarter'' ''2025'')"]
    decision_fields_kept [where s = state_with_decision and e = example_env
      and req = "POST_approval (example_approval example_id True None)"]
  by (simp add: state_with_decision_eq example_row_def)

text \<open>
  C8, counterexample to the claim as stated: posting a decision again under the id of a
  stored one changes the stored recommendation.
\<close>

theorem decision_fields_kept_counterexample:
  "map d_id (decisions state_with_decision) = [example_id] \<and>
   map d_recommendation (decisions state_with_decision) = [''PROCEED: ship it''] \<and>
   map d_id (decisions (snd (handle example_env
       (POST_decisions (example_decision example_id ''DEFER: wait a quarter'' ''2025''))
       state_with_decision))) = [example_id] \<and>
   map d_recommendation (decisions (snd (handle example_env
       (POST_decisions (example_decision example_id ''DEFER: wait a quarter'' ''2025''))
       state_with_decision))) = [''DEFER: wait a quarter'']"
proof -
  have "createDecisionSchema example_env (example_decision example_id ''DEFER: wait a quarter'' ''2025'')"
    by (simp add: example_decision_schema)
  then show ?thesis
    by (simp add: createDecisionHandler_def query_def upsert_decision_def
        example_throws pg_uuid_example Let_def example_decision_fields
        state_with_decision_eq example_row_def)
qed

end
